theory Spec2Isabelle
  imports Complex_Main
begin

text \<open>
  A model of \<open>script.js\<close>, the analysis engine of the web accessibility and usability
  checker: \<open>analyzeDocument\<close> with its five checks and its score, and the colour functions
  \<open>parseCssColor\<close>, \<open>relativeLuminance\<close>, \<open>computeContrastRatio\<close> and
  \<open>getEffectiveBackground\<close>. The parts of the language and of the browser that these
  functions call (\<open>parseFloat\<close>, \<open>parseInt\<close>, \<open>trim\<close>, the regular expression, the element
  queries) are modelled first.
\<close>

section \<open>JavaScript values used by script.js\<close>

subsection \<open>Numbers\<close>

text \<open>
  A JavaScript number is \<open>NaN\<close>, one of the two infinities, or a finite value. Finite
  values are exact reals here: rounding to binary64, overflow of a finite computation and
  the sign of zero are outside the model. \<open>NaN\<close> and the infinities are kept, because the
  source tests for them (\<open>isNaN\<close>) and every comparison with \<open>NaN\<close> is false. So a value
  that the browser computes as \<open>Infinity\<close> by overflow, such as \<open>parseFloat("1e309")\<close> or
  \<open>Math.pow\<close> of a colour channel of 131 digits, is a large finite number here, and a
  decimal text is read as the exact number it writes, not as the nearest binary64 value.
\<close>

datatype jsnum = NaN | NegInf | Fin real | PosInf

fun isNaN :: "jsnum \<Rightarrow> bool" where
  "isNaN NaN = True"
| "isNaN _ = False"

text \<open>\<open>x < y\<close>, \<open>x <= y\<close> and \<open>x > y\<close> of the language: false as soon as one side is \<open>NaN\<close>.\<close>

fun js_lt :: "jsnum \<Rightarrow> jsnum \<Rightarrow> bool" where
  "js_lt NaN _ = False"
| "js_lt _ NaN = False"
| "js_lt (Fin x) (Fin y) = (x < y)"
| "js_lt _ NegInf = False"
| "js_lt PosInf _ = False"
| "js_lt NegInf _ = True"
| "js_lt _ PosInf = True"

fun js_le :: "jsnum \<Rightarrow> jsnum \<Rightarrow> bool" where
  "js_le NaN _ = False"
| "js_le _ NaN = False"
| "js_le (Fin x) (Fin y) = (x \<le> y)"
| "js_le NegInf _ = True"
| "js_le _ PosInf = True"
| "js_le _ NegInf = False"
| "js_le PosInf _ = False"

definition js_gt :: "jsnum \<Rightarrow> jsnum \<Rightarrow> bool" where
  "js_gt x y = js_lt y x"

fun js_add :: "jsnum \<Rightarrow> jsnum \<Rightarrow> jsnum" where
  "js_add NaN _ = NaN"
| "js_add _ NaN = NaN"
| "js_add (Fin x) (Fin y) = Fin (x + y)"
| "js_add PosInf NegInf = NaN"
| "js_add NegInf PosInf = NaN"
| "js_add PosInf _ = PosInf"
| "js_add _ PosInf = PosInf"
| "js_add NegInf _ = NegInf"
| "js_add _ NegInf = NegInf"

text \<open>The sign of a non-\<open>NaN\<close> number, zero counting as \<open>+0\<close>.\<close>

fun js_neg :: "jsnum \<Rightarrow> bool" where
  "js_neg NegInf = True"
| "js_neg (Fin x) = (x < 0)"
| "js_neg _ = False"

fun js_mul :: "jsnum \<Rightarrow> jsnum \<Rightarrow> jsnum" where
  "js_mul NaN _ = NaN"
| "js_mul _ NaN = NaN"
| "js_mul (Fin x) (Fin y) = Fin (x * y)"
| "js_mul (Fin x) y = (if x = 0 then NaN else if (x < 0) = js_neg y then PosInf else NegInf)"
| "js_mul x (Fin y) = (if y = 0 then NaN else if (y < 0) = js_neg x then PosInf else NegInf)"
| "js_mul x y = (if js_neg x = js_neg y then PosInf else NegInf)"

fun js_div :: "jsnum \<Rightarrow> jsnum \<Rightarrow> jsnum" where
  "js_div NaN _ = NaN"
| "js_div _ NaN = NaN"
| "js_div (Fin x) (Fin y) =
     (if y \<noteq> 0 then Fin (x / y)
      else if x = 0 then NaN else if x < 0 then NegInf else PosInf)"
| "js_div (Fin x) _ = Fin 0"
| "js_div x (Fin y) = (if js_neg x = (y < 0) then PosInf else NegInf)"
| "js_div _ _ = NaN"

text \<open>\<open>Math.max(x, y)\<close> and \<open>Math.min(x, y)\<close>: \<open>NaN\<close> when an argument is \<open>NaN\<close>.\<close>

definition Math_max :: "jsnum \<Rightarrow> jsnum \<Rightarrow> jsnum" where
  "Math_max x y = (if isNaN x \<or> isNaN y then NaN else if js_lt x y then y else x)"

definition Math_min :: "jsnum \<Rightarrow> jsnum \<Rightarrow> jsnum" where
  "Math_min x y = (if isNaN x \<or> isNaN y then NaN else if js_lt y x then y else x)"

text \<open>
  \<open>Math.pow(x, 2.4)\<close>, the only exponent of the source. The exponent is positive and not
  an integer, so a negative finite base gives \<open>NaN\<close> and both infinities give \<open>+Infinity\<close>.
\<close>

fun Math_pow_2_4 :: "jsnum \<Rightarrow> jsnum" where
  "Math_pow_2_4 NaN = NaN"
| "Math_pow_2_4 (Fin x) = (if x < 0 then NaN else Fin (x powr 2.4))"
| "Math_pow_2_4 _ = PosInf"

text \<open>\<open>Math.round\<close> on a finite value: the nearest integer, a tie going up.\<close>

definition Math_round :: "real \<Rightarrow> int" where
  "Math_round x = \<lfloor>x + 1 / 2\<rfloor>"

subsection \<open>Strings\<close>

text \<open>
  A string is a list of code units; each \<open>char\<close> stands for the code unit of the same
  number, so the code units from 256 on are not represented. White space is what
  \<open>String.prototype.trim\<close>, \<open>parseFloat\<close> and the regular expression class \<open>\s\<close> share:
  tab, line feed, vertical tab, form feed, carriage return, space and no-break space
  (the others lie beyond 255).
\<close>

definition is_space :: "char \<Rightarrow> bool" where
  "is_space c = (c \<in> set [CHR 0x09, CHR 0x0A, CHR 0x0B, CHR 0x0C, CHR 0x0D, CHR '' '', CHR 0xA0])"

definition is_digit :: "char \<Rightarrow> bool" where
  "is_digit c = (c \<in> set ''0123456789'')"

definition trim :: "string \<Rightarrow> string" where
  "trim s = rev (dropWhile is_space (rev (dropWhile is_space s)))"

definition digit_val :: "char \<Rightarrow> nat" where
  "digit_val c = of_char c - 48"

definition digits_val :: "string \<Rightarrow> nat" where
  "digits_val ds = foldl (\<lambda>a c. 10 * a + digit_val c) 0 ds"

text \<open>
  The value of the \<open>ExponentPart\<close> that a string starts with (\<open>e\<close> or \<open>E\<close>, an optional
  sign, at least one digit), and 0 when it starts with none.
\<close>

definition exponentPart :: "string \<Rightarrow> int" where
  "exponentPart s =
     (case s of
        [] \<Rightarrow> 0
      | c # t \<Rightarrow>
          if c = CHR ''e'' \<or> c = CHR ''E'' then
            (case t of
               [] \<Rightarrow> 0
             | d # u \<Rightarrow>
                 if d = CHR ''-'' then - int (digits_val (takeWhile is_digit u))
                 else if d = CHR ''+'' then int (digits_val (takeWhile is_digit u))
                 else int (digits_val (takeWhile is_digit t)))
          else 0)"

definition scale10 :: "real \<Rightarrow> int \<Rightarrow> real" where
  "scale10 m e = (if 0 \<le> e then m * 10 ^ nat e else m / 10 ^ nat (- e))"

text \<open>
  \<open>parseFloat\<close>: skip leading white space, then read the longest prefix that is a
  \<open>StrDecimalLiteral\<close> (a sign, then \<open>Infinity\<close> or digits with an optional fraction and
  exponent); \<open>NaN\<close> when there is no such prefix. Whatever follows is ignored.
\<close>

definition unsignedLiteral :: "string \<Rightarrow> jsnum" where
  "unsignedLiteral u =
     (if take 8 u = ''Infinity'' then PosInf
      else
        let ip = takeWhile is_digit u;
            r1 = dropWhile is_digit u;
            dot = (r1 \<noteq> [] \<and> hd r1 = CHR ''.'');
            fp = (if dot then takeWhile is_digit (tl r1) else []);
            r2 = (if dot then dropWhile is_digit (tl r1) else r1)
        in if ip = [] \<and> fp = [] then NaN
           else Fin (scale10 (real (digits_val ip) + real (digits_val fp) / 10 ^ length fp)
                       (exponentPart r2)))"

definition parseFloat :: "string \<Rightarrow> jsnum" where
  "parseFloat s =
     (case dropWhile is_space s of
        [] \<Rightarrow> NaN
      | c # t \<Rightarrow>
          if c = CHR ''-'' then js_mul (Fin (- 1)) (unsignedLiteral t)
          else if c = CHR ''+'' then unsignedLiteral t
          else unsignedLiteral (c # t))"

section \<open>Colour and contrast\<close>

subsection \<open>The regular expression of \<open>parseCssColor\<close>\<close>

text \<open>
  The pattern is \<^verbatim>\<open>/rgba?\(\s*([\d.]+)\s*,\s*([\d.]+)\s*,\s*([\d.]+)/i\<close>. It is matched
  piece by piece, each greedy run taken whole: the piece after a run of \<open>\s\<close> or of
  \<open>[\d.]\<close> never starts with a character of that run's class, so a shorter run cannot
  succeed where the longest fails. The optional \<open>a\<close> is tried first and given back when
  the rest fails. The matcher is related to the language of the pattern further down.
\<close>

definition is_num_char :: "char \<Rightarrow> bool" where
  "is_num_char c = (is_digit c \<or> c = CHR ''.'')"

text \<open>A letter of the pattern under the flag \<open>i\<close>: itself or its capital.\<close>

definition letter_i :: "char \<Rightarrow> char \<Rightarrow> char \<Rightarrow> bool" where
  "letter_i lower upper c = (c = lower \<or> c = upper)"

text \<open>\<open>([\d.]+)\<close>: the captured run and what follows it.\<close>

definition number_group :: "string \<Rightarrow> (string \<times> string) option" where
  "number_group s =
     (if takeWhile is_num_char s = [] then None
      else Some (takeWhile is_num_char s, dropWhile is_num_char s))"

text \<open>\<open>\s*,\s*\<close>: what follows it.\<close>

definition comma_sep :: "string \<Rightarrow> string option" where
  "comma_sep s =
     (case dropWhile is_space s of
        [] \<Rightarrow> None
      | c # t \<Rightarrow> if c = CHR '','' then Some (dropWhile is_space t) else None)"

text \<open>\<open>\(\s*([\d.]+)\s*,\s*([\d.]+)\s*,\s*([\d.]+)\<close> at the start of a string: the three captures.\<close>

definition arguments :: "string \<Rightarrow> (string \<times> string \<times> string) option" where
  "arguments s =
     (case s of
        [] \<Rightarrow> None
      | c # t \<Rightarrow>
          if c \<noteq> CHR ''('' then None
          else
            (case number_group (dropWhile is_space t) of
               None \<Rightarrow> None
             | Some (m1, s1) \<Rightarrow>
                 (case comma_sep s1 of
                    None \<Rightarrow> None
                  | Some s2 \<Rightarrow>
                      (case number_group s2 of
                         None \<Rightarrow> None
                       | Some (m2, s3) \<Rightarrow>
                           (case comma_sep s3 of
                              None \<Rightarrow> None
                            | Some s4 \<Rightarrow>
                                (case number_group s4 of
                                   None \<Rightarrow> None
                                 | Some (m3, s5) \<Rightarrow> Some (m1, m2, m3)))))))"

text \<open>The whole pattern at the start of a string.\<close>

definition match_here :: "string \<Rightarrow> (string \<times> string \<times> string) option" where
  "match_here s =
     (case s of
        c1 # c2 # c3 # t \<Rightarrow>
          if letter_i CHR ''r'' CHR ''R'' c1 \<and> letter_i CHR ''g'' CHR ''G'' c2
             \<and> letter_i CHR ''b'' CHR ''B'' c3
          then
            (case t of
               [] \<Rightarrow> arguments t
             | a # u \<Rightarrow>
                 if letter_i CHR ''a'' CHR ''A'' a
                 then (case arguments u of Some m \<Rightarrow> Some m | None \<Rightarrow> arguments t)
                 else arguments t)
          else None
      | _ \<Rightarrow> None)"

text \<open>\<open>colorStr.match(rgbRegex)\<close>, no flag \<open>g\<close>: the match at the leftmost position that has one.\<close>

fun regex_match :: "string \<Rightarrow> (string \<times> string \<times> string) option" where
  "regex_match [] = match_here []"
| "regex_match (c # s) =
     (case match_here (c # s) of Some m \<Rightarrow> Some m | None \<Rightarrow> regex_match s)"

subsection \<open>\<open>parseCssColor\<close>, \<open>relativeLuminance\<close>, \<open>computeContrastRatio\<close>\<close>

text \<open>The object \<open>{ r, g, b }\<close>.\<close>

datatype rgbColor = RGB jsnum jsnum jsnum

definition parseCssColor :: "string \<Rightarrow> rgbColor option" where
  "parseCssColor colorStr =
     (if colorStr = [] then None
      else
        (case regex_match colorStr of
           None \<Rightarrow> None
         | Some (m1, m2, m3) \<Rightarrow> Some (RGB (parseFloat m1) (parseFloat m2) (parseFloat m3))))"

text \<open>The expression the source writes three times, for \<open>rLin\<close>, \<open>gLin\<close> and \<open>bLin\<close>.\<close>

definition linearize :: "jsnum \<Rightarrow> jsnum" where
  "linearize c =
     (if js_le c (Fin 0.03928) then js_div c (Fin 12.92)
      else Math_pow_2_4 (js_div (js_add c (Fin 0.055)) (Fin 1.055)))"

definition relativeLuminance :: "jsnum \<Rightarrow> jsnum \<Rightarrow> jsnum \<Rightarrow> jsnum" where
  "relativeLuminance r g b =
     (let rsrgb = js_div r (Fin 255);
          gsrgb = js_div g (Fin 255);
          bsrgb = js_div b (Fin 255);
          rLin = linearize rsrgb;
          gLin = linearize gsrgb;
          bLin = linearize bsrgb
      in js_add (js_add (js_mul (Fin 0.2126) rLin) (js_mul (Fin 0.7152) gLin))
           (js_mul (Fin 0.0722) bLin))"

definition computeContrastRatio :: "string \<Rightarrow> string \<Rightarrow> jsnum" where
  "computeContrastRatio fgColor bgColor =
     (case parseCssColor fgColor of
        None \<Rightarrow> Fin (- 1)
      | Some (RGB fr fg fb) \<Rightarrow>
          (case parseCssColor bgColor of
             None \<Rightarrow> Fin (- 1)
           | Some (RGB br bg bb) \<Rightarrow>
               let lum1 = relativeLuminance fr fg fb;
                   lum2 = relativeLuminance br bg bb;
                   lighter = Math_max lum1 lum2;
                   darker = Math_min lum1 lum2
               in js_div (js_add lighter (Fin 0.05)) (js_add darker (Fin 0.05))))"

section \<open>The rendered document\<close>

text \<open>
  What the analyser reads of the document in the preview frame: the tree of elements
  under \<open>doc.documentElement\<close>, for each element its local name, its attributes and the
  style \<open>frame.contentWindow.getComputedStyle\<close> resolves for it, and the two widths of the
  root element.
\<close>

record computedStyle =
  fontSize :: string
  color :: string
  backgroundColor :: string

datatype element =
  Element (localName: string) (attributes: "(string \<times> string) list")
    (computed: computedStyle) (childElements: "element list")

record document =
  documentElement :: element
  scrollWidth :: int
  clientWidth :: int

text \<open>
  The source holds references to elements of the tree. A reference is modelled by the
  element together with its ancestors, the parent first and the root element last: the
  tree is finite and has no cycle, \<open>parentElement\<close> is the head of the list, and the
  reference is \<open>documentElement\<close> itself exactly when the list is empty.
\<close>

type_synonym handle = "element \<times> element list"

text \<open>All elements of a subtree in document order, each with its ancestors.\<close>

fun descend :: "element list \<Rightarrow> element \<Rightarrow> handle list" where
  "descend anc (Element n a s cs) =
     (Element n a s cs, anc) # concat (map (descend (Element n a s cs # anc)) cs)"

definition allElements :: "document \<Rightarrow> handle list" where
  "allElements doc = descend [] (documentElement doc)"

text \<open>
  \<open>doc.querySelectorAll\<close> for a list of type selectors, the only selectors of the source,
  and \<open>doc.getElementsByTagName\<close>: the elements with one of the names, in document order.
\<close>

definition querySelectorAll :: "document \<Rightarrow> string list \<Rightarrow> handle list" where
  "querySelectorAll doc names = filter (\<lambda>h. localName (fst h) \<in> set names) (allElements doc)"

definition getElementsByTagName :: "document \<Rightarrow> string \<Rightarrow> handle list" where
  "getElementsByTagName doc name = querySelectorAll doc [name]"

definition getAttribute :: "handle \<Rightarrow> string \<Rightarrow> string option" where
  "getAttribute h name = map_of (attributes (fst h)) name"

definition getComputedStyle :: "handle \<Rightarrow> computedStyle" where
  "getComputedStyle h = computed (fst h)"

text \<open>\<open>tagName\<close> of an HTML element: its local name in ASCII upper case.\<close>

definition upper_char :: "char \<Rightarrow> char" where
  "upper_char c =
     (case map_of (zip ''abcdefghijklmnopqrstuvwxyz'' ''ABCDEFGHIJKLMNOPQRSTUVWXYZ'') c of
        None \<Rightarrow> c
      | Some u \<Rightarrow> u)"

definition tagName :: "handle \<Rightarrow> string" where
  "tagName h = map upper_char (localName (fst h))"

subsection \<open>\<open>getEffectiveBackground\<close>\<close>

text \<open>
  The loop runs while \<open>current\<close> is not the root element; its step either returns the
  background of \<open>current\<close> or moves to \<open>current.parentElement\<close>.
\<close>

fun getEffectiveBackground :: "handle \<Rightarrow> string" where
  "getEffectiveBackground (current, []) = ''rgb(255, 255, 255)''"
| "getEffectiveBackground (current, parent # anc) =
     (if backgroundColor (computed current) \<noteq> []
         \<and> backgroundColor (computed current) \<noteq> ''rgba(0, 0, 0, 0)''
      then backgroundColor (computed current)
      else getEffectiveBackground (parent, anc))"

section \<open>\<open>analyzeDocument\<close>\<close>

datatype severity = critical | warning | ok

text \<open>
  The texts of the issues and of the summary: one constructor for each string literal or
  template of the source, with the numbers the template interpolates.
\<close>

datatype issueText =
    FoundImagesWithoutAlt nat nat
  | AllImagesHaveAlt
  | NoHeadingTags
  | HeadingJumps nat
  | HeadingsConsistent
  | SmallFontSizes nat
  | FontSizesReadable
  | LowColorContrast nat
  | NoLowContrast
  | HorizontalScrolling
  | NoHorizontalScrolling

datatype summaryText =
    NoImagesDetected
  | ImagesMissingAlt nat nat
  | NoHeadingsUsed
  | FoundHeadings nat
  | FontSizesLookReadable
  | SomeTextVerySmall
  | ContrastSufficient
  | ContrastMayFail
  | OverflowOnMobile
  | LayoutAdapts

record issue =
  severity :: severity
  issueText :: issueText

definition addIssue :: "issue list \<Rightarrow> severity \<Rightarrow> issueText \<Rightarrow> issue list" where
  "addIssue issues sev txt = issues @ [\<lparr>severity = sev, issueText = txt\<rparr>]"

subsection \<open>1. Alt text check\<close>

definition imgElements :: "document \<Rightarrow> handle list" where
  "imgElements doc = getElementsByTagName doc ''img''"

text \<open>\<open>!alt\<close> for \<open>alt = (img.getAttribute("alt") || "").trim()\<close>.\<close>

definition altIsEmpty :: "handle \<Rightarrow> bool" where
  "altIsEmpty img = (trim (case getAttribute img ''alt'' of None \<Rightarrow> [] | Some v \<Rightarrow> v) = [])"

definition missingAlt :: "document \<Rightarrow> nat" where
  "missingAlt doc = fold (\<lambda>img n. if altIsEmpty img then n + 1 else n) (imgElements doc) 0"

definition altScore :: "document \<Rightarrow> int" where
  "altScore doc =
     (let totalImgs = length (imgElements doc)
      in if totalImgs > 0 then
           let ratio = real (missingAlt doc) / real totalImgs
           in if ratio > 0.5 then 30 else if ratio > 0.2 then 60 else 90
         else 100)"

definition altIssue :: "document \<Rightarrow> severity \<times> issueText" where
  "altIssue doc =
     (if missingAlt doc > 0 then critical else ok,
      if missingAlt doc > 0
      then FoundImagesWithoutAlt (missingAlt doc) (length (imgElements doc))
      else AllImagesHaveAlt)"

definition altSummary :: "document \<Rightarrow> summaryText" where
  "altSummary doc =
     (if length (imgElements doc) = 0 then NoImagesDetected
      else ImagesMissingAlt (missingAlt doc) (length (imgElements doc)))"

subsection \<open>2. Heading structure check\<close>

definition headingTags :: "document \<Rightarrow> handle list" where
  "headingTags doc = querySelectorAll doc [''h1'', ''h2'', ''h3'', ''h4'', ''h5'', ''h6'']"

text \<open>
  \<open>parseInt(s, 10)\<close>: leading white space, a sign, then the longest run of digits;
  \<open>None\<close> stands for \<open>NaN\<close>.
\<close>

definition parseInt10 :: "string \<Rightarrow> int option" where
  "parseInt10 s =
     (let t = dropWhile is_space s;
          signed = (t \<noteq> [] \<and> (hd t = CHR ''-'' \<or> hd t = CHR ''+''));
          ds = takeWhile is_digit (if signed then tl t else t)
      in if ds = [] then None
         else if signed \<and> hd t = CHR ''-'' then Some (- int (digits_val ds))
         else Some (int (digits_val ds)))"

definition headingLevel :: "handle \<Rightarrow> int option" where
  "headingLevel h = parseInt10 (drop 1 (tagName h))"

text \<open>
  One round of the \<open>forEach\<close> over the headings, on the pair of \<open>jumps\<close> and \<open>lastLevel\<close>
  (\<open>None\<close> is \<open>null\<close>). With a \<open>NaN\<close> on either side, \<open>level - lastLevel > 1\<close> is false.
\<close>

definition headingStep :: "handle \<Rightarrow> nat \<times> int option option \<Rightarrow> nat \<times> int option option" where
  "headingStep h st =
     (let level = headingLevel h;
          jump = (case snd st of
                    None \<Rightarrow> False
                  | Some None \<Rightarrow> False
                  | Some (Some lastLevel) \<Rightarrow>
                      (case level of None \<Rightarrow> False | Some l \<Rightarrow> l - lastLevel > 1))
      in (if jump then fst st + 1 else fst st, Some level))"

definition headingJumps :: "document \<Rightarrow> nat" where
  "headingJumps doc = fst (fold headingStep (headingTags doc) (0, None))"

definition headingScore :: "document \<Rightarrow> int" where
  "headingScore doc =
     (if length (headingTags doc) = 0 then 50
      else if headingJumps doc > 0 then 70 else 100)"

definition headingIssue :: "document \<Rightarrow> severity \<times> issueText" where
  "headingIssue doc =
     (if length (headingTags doc) = 0 then (warning, NoHeadingTags)
      else if headingJumps doc > 0 then (warning, HeadingJumps (headingJumps doc))
      else (ok, HeadingsConsistent))"

definition headingSummary :: "document \<Rightarrow> summaryText" where
  "headingSummary doc =
     (if length (headingTags doc) = 0 then NoHeadingsUsed
      else FoundHeadings (length (headingTags doc)))"

subsection \<open>3. Font size check\<close>

definition textNodes :: "document \<Rightarrow> handle list" where
  "textNodes doc = querySelectorAll doc [''p'', ''li'', ''a'', ''span'', ''button'']"

definition isSmallText :: "handle \<Rightarrow> bool" where
  "isSmallText el =
     (let fontSizePx = parseFloat (fontSize (getComputedStyle el))
      in \<not> isNaN fontSizePx \<and> js_lt fontSizePx (Fin 12))"

definition smallTextCount :: "document \<Rightarrow> nat" where
  "smallTextCount doc = fold (\<lambda>el n. if isSmallText el then n + 1 else n) (textNodes doc) 0"

definition fontScore :: "document \<Rightarrow> int" where
  "fontScore doc =
     (if smallTextCount doc > 0
      then (if real (smallTextCount doc) > real (length (textNodes doc)) * 0.3 then 60 else 80)
      else 100)"

definition fontIssue :: "document \<Rightarrow> severity \<times> issueText" where
  "fontIssue doc =
     (if smallTextCount doc > 0 then (warning, SmallFontSizes (smallTextCount doc))
      else (ok, FontSizesReadable))"

definition fontSummary :: "document \<Rightarrow> summaryText" where
  "fontSummary doc =
     (if smallTextCount doc = 0 then FontSizesLookReadable else SomeTextVerySmall)"

subsection \<open>4. Colour contrast check\<close>

definition contrastTargets :: "document \<Rightarrow> handle list" where
  "contrastTargets doc =
     querySelectorAll doc [''p'', ''h1'', ''h2'', ''h3'', ''h4'', ''h5'', ''h6'', ''button'', ''a'']"

definition targetBackground :: "handle \<Rightarrow> string" where
  "targetBackground el =
     (if backgroundColor (getComputedStyle el) = ''rgba(0, 0, 0, 0)''
      then getEffectiveBackground el
      else backgroundColor (getComputedStyle el))"

definition targetContrast :: "handle \<Rightarrow> jsnum" where
  "targetContrast el = computeContrastRatio (color (getComputedStyle el)) (targetBackground el)"

definition isLowContrast :: "handle \<Rightarrow> bool" where
  "isLowContrast el =
     (let contrastRatio = targetContrast el
      in js_gt contrastRatio (Fin 0) \<and> js_lt contrastRatio (Fin 4.5))"

definition lowContrastCount :: "document \<Rightarrow> nat" where
  "lowContrastCount doc =
     fold (\<lambda>el n. if isLowContrast el then n + 1 else n) (contrastTargets doc) 0"

definition contrastScore :: "document \<Rightarrow> int" where
  "contrastScore doc =
     (if lowContrastCount doc > 0
      then (if real (lowContrastCount doc) > real (length (contrastTargets doc)) * 0.2
            then 55 else 75)
      else 100)"

definition contrastIssue :: "document \<Rightarrow> severity \<times> issueText" where
  "contrastIssue doc =
     (if lowContrastCount doc > 0 then (critical, LowColorContrast (lowContrastCount doc))
      else (ok, NoLowContrast))"

definition contrastSummary :: "document \<Rightarrow> summaryText" where
  "contrastSummary doc =
     (if lowContrastCount doc = 0 then ContrastSufficient else ContrastMayFail)"

subsection \<open>5. Responsiveness check\<close>

definition hasHorizontalScroll :: "document \<Rightarrow> bool" where
  "hasHorizontalScroll doc = (scrollWidth doc > clientWidth doc + 5)"

definition responsiveScore :: "document \<Rightarrow> int" where
  "responsiveScore doc = (if hasHorizontalScroll doc then 65 else 100)"

definition responsiveIssue :: "document \<Rightarrow> severity \<times> issueText" where
  "responsiveIssue doc =
     (if hasHorizontalScroll doc then (warning, HorizontalScrolling)
      else (ok, NoHorizontalScrolling))"

definition responsiveSummary :: "document \<Rightarrow> summaryText" where
  "responsiveSummary doc = (if hasHorizontalScroll doc then OverflowOnMobile else LayoutAdapts)"

subsection \<open>The function\<close>

text \<open>
  The four variables the function updates from check to check, and one step for what
  each check does to them: one \<open>addIssue\<close>, one \<open>summary.push\<close>, the score added to
  \<open>totalScore\<close>, \<open>metricsCount++\<close>.
\<close>

record locals =
  issues_var :: "issue list"
  summary_var :: "summaryText list"
  totalScore :: int
  metricsCount :: nat

definition record_check :: "severity \<times> issueText \<Rightarrow> summaryText \<Rightarrow> int \<Rightarrow> locals \<Rightarrow> locals" where
  "record_check iss line score st =
     \<lparr>issues_var = addIssue (issues_var st) (fst iss) (snd iss),
      summary_var = summary_var st @ [line],
      totalScore = totalScore st + score,
      metricsCount = metricsCount st + 1\<rparr>"

record analysisResult =
  finalScore :: int
  issues :: "issue list"
  summary :: "summaryText list"

definition analyzeDocument :: "document \<Rightarrow> analysisResult" where
  "analyzeDocument doc =
     (let st0 = \<lparr>issues_var = [], summary_var = [], totalScore = 0, metricsCount = 0\<rparr>;
          st1 = record_check (altIssue doc) (altSummary doc) (altScore doc) st0;
          st2 = record_check (headingIssue doc) (headingSummary doc) (headingScore doc) st1;
          st3 = record_check (fontIssue doc) (fontSummary doc) (fontScore doc) st2;
          st4 = record_check (contrastIssue doc) (contrastSummary doc) (contrastScore doc) st3;
          st5 = record_check (responsiveIssue doc) (responsiveSummary doc) (responsiveScore doc) st4
      in \<lparr>finalScore = Math_round (real_of_int (totalScore st5) / real (metricsCount st5)),
          issues = issues_var st5,
          summary = summary_var st5\<rparr>)"

section \<open>Example documents\<close>

definition plainStyle :: computedStyle where
  "plainStyle =
     \<lparr>fontSize = ''16px'', color = ''rgb(0, 0, 0)'', backgroundColor = ''rgba(0, 0, 0, 0)''\<rparr>"

definition whiteStyle :: computedStyle where
  "whiteStyle =
     \<lparr>fontSize = ''16px'', color = ''rgb(0, 0, 0)'', backgroundColor = ''rgb(255, 255, 255)''\<rparr>"

text \<open>A document without content, rendered without overflow.\<close>

definition emptyDocument :: document where
  "emptyDocument =
     \<lparr>documentElement = Element ''html'' [] plainStyle [Element ''body'' [] plainStyle []],
      scrollWidth = 375, clientWidth = 375\<rparr>"

text \<open>The same document rendered 20 pixels wider than the frame.\<close>

definition overflowDocument :: document where
  "overflowDocument =
     \<lparr>documentElement = Element ''html'' [] plainStyle [Element ''body'' [] plainStyle []],
      scrollWidth = 395, clientWidth = 375\<rparr>"

text \<open>
  Ten images, four of them described; of the other six, four have no \<open>alt\<close> attribute,
  one has an empty one and one has only white space. No heading, two paragraphs of black
  16px text on the white background of the body, no overflow.
\<close>

definition describedImg :: element where
  "describedImg = Element ''img'' [(''src'', ''a.png''), (''alt'', ''A photo'')] plainStyle []"

definition bareImg :: element where
  "bareImg = Element ''img'' [(''src'', ''b.png'')] plainStyle []"

definition scenarioA :: document where
  "scenarioA =
     \<lparr>documentElement =
        Element ''html'' [] plainStyle
          [Element ''body'' [] whiteStyle
             [describedImg, bareImg, describedImg, bareImg, describedImg, bareImg,
              describedImg, bareImg,
              Element ''img'' [(''alt'', [])] plainStyle [],
              Element ''img'' [(''alt'', ''  '')] plainStyle [],
              Element ''p'' [] plainStyle [],
              Element ''p'' [] whiteStyle []]],
      scrollWidth = 375, clientWidth = 375\<rparr>"

text \<open>
  One image without \<open>alt\<close>, no heading, one paragraph of black 10px text on black,
  rendered 25 pixels wider than the frame.
\<close>

definition worstDocument :: document where
  "worstDocument =
     \<lparr>documentElement =
        Element ''html'' [] plainStyle
          [Element ''body'' [] plainStyle
             [bareImg,
              Element ''p'' []
                \<lparr>fontSize = ''10px'', color = ''rgb(0, 0, 0)'',
                 backgroundColor = ''rgb(0, 0, 0)''\<rparr> []]],
      scrollWidth = 400, clientWidth = 375\<rparr>"

text \<open>Five headings, none more than one level below the one before it.\<close>

definition outlineDocument :: document where
  "outlineDocument =
     \<lparr>documentElement =
        Element ''html'' [] plainStyle
          [Element ''body'' [] whiteStyle
             [Element ''h1'' [] plainStyle [],
              Element ''h2'' [] plainStyle [],
              Element ''div'' [] plainStyle
                [Element ''h2'' [] plainStyle [], Element ''h3'' [] plainStyle []],
              Element ''h1'' [] plainStyle []]],
      scrollWidth = 375, clientWidth = 375\<rparr>"

text \<open>
  Small trees for the walk up the ancestors: a paragraph without a background in a body
  whose background is red with alpha 0, and the same paragraph in a division with that
  background, inside a grey body.
\<close>

definition plainParagraph :: element where
  "plainParagraph = Element ''p'' [] plainStyle []"

definition clearRedStyle :: computedStyle where
  "clearRedStyle =
     \<lparr>fontSize = ''16px'', color = ''rgb(0, 0, 0)'', backgroundColor = ''rgba(255, 0, 0, 0)''\<rparr>"

definition clearRedBody :: element where
  "clearRedBody = Element ''body'' [] clearRedStyle [plainParagraph]"

definition clearRedRoot :: element where
  "clearRedRoot = Element ''html'' [] plainStyle [clearRedBody]"

definition clearRedDiv :: element where
  "clearRedDiv = Element ''div'' [] clearRedStyle [plainParagraph]"

definition greyStyle :: computedStyle where
  "greyStyle =
     \<lparr>fontSize = ''16px'', color = ''rgb(0, 0, 0)'', backgroundColor = ''rgb(238, 238, 238)''\<rparr>"

definition greyBody :: element where
  "greyBody = Element ''body'' [] greyStyle [clearRedDiv]"

definition greyBodyRoot :: element where
  "greyBodyRoot = Element ''html'' [] plainStyle [greyBody]"

text \<open>
  A paragraph whose computed colour is not in the \<open>rgb\<close> form, in a white body.
\<close>

definition oklchDocument :: document where
  "oklchDocument =
     \<lparr>documentElement =
        Element ''html'' [] plainStyle
          [Element ''body'' [] whiteStyle
             [Element ''p'' []
                \<lparr>fontSize = ''16px'', color = ''oklch(0.5 0.2 30)'',
                 backgroundColor = ''rgba(0, 0, 0, 0)''\<rparr> []]],
      scrollWidth = 375, clientWidth = 375\<rparr>"

section \<open>Notions of the specification\<close>

text \<open>The level a heading element carries in its name: \<open>n\<close> for \<open>hn\<close>.\<close>

definition levelOf :: "handle \<Rightarrow> int" where
  "levelOf h =
     (if localName (fst h) = ''h1'' then 1
      else if localName (fst h) = ''h2'' then 2
      else if localName (fst h) = ''h3'' then 3
      else if localName (fst h) = ''h4'' then 4
      else if localName (fst h) = ''h5'' then 5
      else if localName (fst h) = ''h6'' then 6
      else 0)"

text \<open>
  A sequence of levels in which each level exceeds the one before it by at most one,
  and the number of places where it exceeds it by more.
\<close>

fun risesByAtMostOne :: "int list \<Rightarrow> bool" where
  "risesByAtMostOne (x # y # zs) = (y - x \<le> 1 \<and> risesByAtMostOne (y # zs))"
| "risesByAtMostOne _ = True"

fun jumpsIn :: "int list \<Rightarrow> nat" where
  "jumpsIn (x # y # zs) = (if y - x > 1 then 1 else 0) + jumpsIn (y # zs)"
| "jumpsIn _ = 0"

text \<open>
  The test of \<open>getEffectiveBackground\<close> on one element: its computed background colour is
  set and is not the transparent colour as computed styles print it.
\<close>

definition hasBackground :: "element \<Rightarrow> bool" where
  "hasBackground e =
     (backgroundColor (computed e) \<noteq> [] \<and> backgroundColor (computed e) \<noteq> ''rgba(0, 0, 0, 0)'')"

text \<open>A number that is \<open>NaN\<close> or finite and not negative.\<close>

fun nanOrNonNegative :: "jsnum \<Rightarrow> bool" where
  "nanOrNonNegative NaN = True"
| "nanOrNonNegative (Fin x) = (0 \<le> x)"
| "nanOrNonNegative _ = False"

text \<open>
  The language of the regular expression, piece by piece: a run of white space, a
  non-empty run of digits and dots, the word \<open>rgb\<close> or \<open>rgba\<close> in any mix of cases.
\<close>

definition spaces :: "string \<Rightarrow> bool" where
  "spaces w = list_all is_space w"

definition numberText :: "string \<Rightarrow> bool" where
  "numberText n = (n \<noteq> [] \<and> list_all is_num_char n)"

definition rgbKeyword :: "string \<Rightarrow> bool" where
  "rgbKeyword k = (map upper_char k = ''RGB'' \<or> map upper_char k = ''RGBA'')"

text \<open>
  A string that starts with an opening parenthesis and three numbers separated by commas,
  with optional white space around the numbers; a string that starts with a match of the
  pattern; and a string that has a match somewhere.
\<close>

definition startsWithArguments :: "string \<Rightarrow> bool" where
  "startsWithArguments t =
     (\<exists>w1 n1 w2 w3 n2 w4 w5 n3 rest.
        t = ''('' @ w1 @ n1 @ w2 @ '','' @ w3 @ n2 @ w4 @ '','' @ w5 @ n3 @ rest
        \<and> spaces w1 \<and> numberText n1 \<and> spaces w2 \<and> spaces w3 \<and> numberText n2
        \<and> spaces w4 \<and> spaces w5 \<and> numberText n3)"

definition startsWithPattern :: "string \<Rightarrow> bool" where
  "startsWithPattern t = (\<exists>k u. t = k @ u \<and> rgbKeyword k \<and> startsWithArguments u)"

definition containsPattern :: "string \<Rightarrow> bool" where
  "containsPattern s = (\<exists>pre t. s = pre @ t \<and> startsWithPattern t)"

text \<open>
  The shape that every text of the form \<open>rgb(r,g,b)\<close> or \<open>rgba(r,g,b,a)\<close> has: it starts with
  the function name and the parenthesis and ends with the closing parenthesis.
\<close>

definition rgbFunctionShape :: "string \<Rightarrow> bool" where
  "rgbFunctionShape s =
     ((take 4 s = ''rgb('' \<or> take 5 s = ''rgba('') \<and> s \<noteq> [] \<and> last s = CHR '')'')"

text \<open>
  The alpha component that an \<open>rgba\<close> text carries after its last comma, and a colour text
  that is fully transparent: the keyword, or an \<open>rgba\<close> text whose alpha is 0.
\<close>

definition alphaText :: "string \<Rightarrow> string" where
  "alphaText s = trim (butlast (rev (takeWhile (\<lambda>c. c \<noteq> CHR '','') (rev s))))"

definition fullyTransparent :: "string \<Rightarrow> bool" where
  "fullyTransparent s =
     (s = ''transparent''
      \<or> (take 5 s = ''rgba('' \<and> last s = CHR '')'' \<and> parseFloat (alphaText s) = Fin 0))"

section \<open>Evaluation on concrete inputs\<close>

text \<open>The definitions that unfold when a function is run on a concrete string or document.\<close>

lemmas string_defs = is_space_def is_digit_def is_num_char_def letter_i_def digit_val_def
  digits_val_def exponentPart_def scale10_def unsignedLiteral_def parseFloat_def trim_def
  upper_char_def parseInt10_def
lemmas regex_defs = number_group_def comma_sep_def arguments_def match_here_def
  parseCssColor_def
lemmas dom_defs = allElements_def querySelectorAll_def getElementsByTagName_def
  getAttribute_def getComputedStyle_def tagName_def
lemmas example_defs = plainStyle_def whiteStyle_def describedImg_def bareImg_def

section \<open>The loops as counts\<close>

text \<open>Each \<open>forEach\<close> that increments a counter counts the elements that pass its test.\<close>

lemma fold_count:
  "fold (\<lambda>x n. if P x then n + 1 else n) xs k = k + length (filter P xs)"
  by (induction xs arbitrary: k) auto

lemma missingAlt_filter: "missingAlt doc = length (filter altIsEmpty (imgElements doc))"
  by (simp add: missingAlt_def fold_count)

lemma smallTextCount_filter: "smallTextCount doc = length (filter isSmallText (textNodes doc))"
  by (simp add: smallTextCount_def fold_count)

lemma lowContrastCount_filter:
  "lowContrastCount doc = length (filter isLowContrast (contrastTargets doc))"
  by (simp add: lowContrastCount_def fold_count)

section \<open>Black and white\<close>

lemma parse_black: "parseCssColor ''rgb(0, 0, 0)'' = Some (RGB (Fin 0) (Fin 0) (Fin 0))"
  by (simp add: string_defs regex_defs)

lemma parse_white:
  "parseCssColor ''rgb(255, 255, 255)'' = Some (RGB (Fin 255) (Fin 255) (Fin 255))"
  by (simp add: string_defs regex_defs)

lemma luminance_black: "relativeLuminance (Fin 0) (Fin 0) (Fin 0) = Fin 0"
  by (simp add: relativeLuminance_def linearize_def)

lemma luminance_white: "relativeLuminance (Fin 255) (Fin 255) (Fin 255) = Fin 1"
  by (simp add: relativeLuminance_def linearize_def)


lemma contrast_black_on_black:
  "computeContrastRatio ''rgb(0, 0, 0)'' ''rgb(0, 0, 0)'' = Fin 1"
  by (simp add: computeContrastRatio_def parse_black luminance_black Math_max_def Math_min_def)


lemma parseFloat_10px: "parseFloat ''10px'' = Fin 10"
  by (simp add: string_defs)

section \<open>The result of \<open>analyzeDocument\<close>\<close>

lemma issues_analyzeDocument:
  "issues (analyzeDocument doc) =
     [\<lparr>severity = fst (altIssue doc), issueText = snd (altIssue doc)\<rparr>,
      \<lparr>severity = fst (headingIssue doc), issueText = snd (headingIssue doc)\<rparr>,
      \<lparr>severity = fst (fontIssue doc), issueText = snd (fontIssue doc)\<rparr>,
      \<lparr>severity = fst (contrastIssue doc), issueText = snd (contrastIssue doc)\<rparr>,
      \<lparr>severity = fst (responsiveIssue doc), issueText = snd (responsiveIssue doc)\<rparr>]"
  by (simp add: analyzeDocument_def record_check_def addIssue_def Let_def)

lemma summary_analyzeDocument:
  "summary (analyzeDocument doc) =
     [altSummary doc, headingSummary doc, fontSummary doc, contrastSummary doc,
      responsiveSummary doc]"
  by (simp add: analyzeDocument_def record_check_def Let_def)

lemma finalScore_analyzeDocument:
  "finalScore (analyzeDocument doc) =
     Math_round (real_of_int (altScore doc + headingScore doc + fontScore doc
                   + contrastScore doc + responsiveScore doc) / 5)"
  by (simp add: analyzeDocument_def record_check_def Let_def)

text \<open>
  Claim C1. For every document, the result of \<open>analyzeDocument\<close> has exactly five issues
  and exactly five summary lines, one per check in the order of the checks whatever the
  checks find, and its final score is the mean of the five sub-scores rounded to the
  nearest integer.
\<close>

theorem analyze_result_shape:
  "length (issues (analyzeDocument doc)) = 5
   \<and> length (summary (analyzeDocument doc)) = 5
   \<and> map severity (issues (analyzeDocument doc)) =
       [fst (altIssue doc), fst (headingIssue doc), fst (fontIssue doc),
        fst (contrastIssue doc), fst (responsiveIssue doc)]
   \<and> summary (analyzeDocument doc) =
       [altSummary doc, headingSummary doc, fontSummary doc, contrastSummary doc,
        responsiveSummary doc]
   \<and> finalScore (analyzeDocument doc) =
       Math_round (real_of_int (altScore doc + headingScore doc + fontScore doc
                     + contrastScore doc + responsiveScore doc) / 5)"
  by (simp add: issues_analyzeDocument summary_analyzeDocument finalScore_analyzeDocument)

section \<open>The sub-scores of the document that fails every check\<close>

lemma worst_imgs: "length (imgElements worstDocument) = 1"
  by (simp add: worstDocument_def imgElements_def dom_defs example_defs)

lemma worst_missingAlt: "missingAlt worstDocument = 1"
  by (simp add: missingAlt_filter worstDocument_def imgElements_def dom_defs example_defs
        altIsEmpty_def trim_def)

lemma worst_alt: "altScore worstDocument = 30"
  by (simp add: altScore_def worst_imgs worst_missingAlt)

lemma worst_heading: "headingScore worstDocument = 50"
  by (simp add: headingScore_def headingTags_def worstDocument_def dom_defs example_defs)

lemma worst_font: "fontScore worstDocument = 60"
  by (simp add: fontScore_def smallTextCount_filter textNodes_def worstDocument_def dom_defs example_defs isSmallText_def parseFloat_10px)

lemma worst_contrast: "contrastScore worstDocument = 55"
  by (simp add: contrastScore_def lowContrastCount_filter contrastTargets_def worstDocument_def dom_defs example_defs isLowContrast_def targetContrast_def targetBackground_def contrast_black_on_black js_gt_def)

lemma worst_responsive: "responsiveScore worstDocument = 65"
  by (simp add: responsiveScore_def hasHorizontalScroll_def worstDocument_def)

lemma worst_final: "finalScore (analyzeDocument worstDocument) = 52"
  by (simp add: finalScore_analyzeDocument worst_alt worst_heading worst_font worst_contrast worst_responsive Math_round_def)

lemma worst_severities:
  "fst (altIssue worstDocument) = critical"
  "fst (headingIssue worstDocument) = warning"
  "fst (fontIssue worstDocument) = warning"
  "fst (contrastIssue worstDocument) = critical"
  "fst (responsiveIssue worstDocument) = warning"
proof -
  show "fst (altIssue worstDocument) = critical"
    by (simp add: altIssue_def worst_missingAlt)
  show "fst (headingIssue worstDocument) = warning"
    by (simp add: headingIssue_def headingTags_def worstDocument_def dom_defs example_defs)
  show "fst (fontIssue worstDocument) = warning"
    by (simp add: fontIssue_def smallTextCount_filter textNodes_def worstDocument_def dom_defs
          example_defs isSmallText_def parseFloat_10px)
  show "fst (contrastIssue worstDocument) = critical"
    by (simp add: contrastIssue_def lowContrastCount_filter contrastTargets_def
          worstDocument_def dom_defs example_defs isLowContrast_def targetContrast_def
          targetBackground_def contrast_black_on_black js_gt_def)
  show "fst (responsiveIssue worstDocument) = warning"
    by (simp add: responsiveIssue_def hasHorizontalScroll_def worstDocument_def)
qed

text \<open>The five issues and the score of the document that fails every check.\<close>

theorem analyze_result_shape_witness:
  "length (issues (analyzeDocument worstDocument)) = 5
   \<and> length (summary (analyzeDocument worstDocument)) = 5
   \<and> map severity (issues (analyzeDocument worstDocument))
       = [critical, warning, warning, critical, warning]
   \<and> finalScore (analyzeDocument worstDocument) = Math_round (260 / 5)
   \<and> finalScore (analyzeDocument worstDocument) = 52"
  using analyze_result_shape [of worstDocument]
  by (simp add: worst_severities worst_alt worst_heading worst_font worst_contrast
        worst_responsive Math_round_def)

section \<open>The range of the final score\<close>

lemma altScore_tier: "altScore doc \<in> {30, 60, 90, 100}"
  by (simp add: altScore_def Let_def)

lemma headingScore_tier: "headingScore doc \<in> {50, 70, 100}"
  by (simp add: headingScore_def)

lemma fontScore_tier: "fontScore doc \<in> {60, 80, 100}"
  by (simp add: fontScore_def)

lemma contrastScore_tier: "contrastScore doc \<in> {55, 75, 100}"
  by (simp add: contrastScore_def)

lemma responsiveScore_tier: "responsiveScore doc \<in> {65, 100}"
  by (simp add: responsiveScore_def)

lemma Math_round_fifth: "5 dvd n \<Longrightarrow> Math_round (real_of_int n / 5) = n div 5"
proof -
  assume "5 dvd n"
  then obtain k where k: "n = 5 * k" by (auto simp: dvd_def)
  have "Math_round (real_of_int n / 5) = \<lfloor>real_of_int k + 1 / 2\<rfloor>"
    by (simp add: Math_round_def k)
  also have "\<dots> = k" by linarith
  finally show ?thesis by (simp add: k)
qed

text \<open>
  Claim C10. For every document, each sub-score lies in its fixed set of tiers (alt
  30, 60, 90 or 100; heading 50, 70 or 100; font 60, 80 or 100; contrast 55, 75 or 100;
  responsiveness 65 or 100), so the sum of the five is divisible by 5, the final score
  is that sum divided by 5 with nothing lost to rounding, and it lies between 52 and 100.
  The bound 52 is reached.
\<close>

theorem final_score_range:
  "altScore doc \<in> {30, 60, 90, 100}
   \<and> headingScore doc \<in> {50, 70, 100}
   \<and> fontScore doc \<in> {60, 80, 100}
   \<and> contrastScore doc \<in> {55, 75, 100}
   \<and> responsiveScore doc \<in> {65, 100}
   \<and> 5 dvd (altScore doc + headingScore doc + fontScore doc + contrastScore doc
              + responsiveScore doc)
   \<and> finalScore (analyzeDocument doc) =
       (altScore doc + headingScore doc + fontScore doc + contrastScore doc
          + responsiveScore doc) div 5
   \<and> 52 \<le> finalScore (analyzeDocument doc)
   \<and> finalScore (analyzeDocument doc) \<le> 100
   \<and> (\<exists>d. finalScore (analyzeDocument d) = 52)"
proof -
  let ?n = "altScore doc + headingScore doc + fontScore doc + contrastScore doc
              + responsiveScore doc"
  have a: "5 dvd altScore doc \<and> 30 \<le> altScore doc \<and> altScore doc \<le> 100"
    using altScore_tier [of doc] by auto
  have h: "5 dvd headingScore doc \<and> 50 \<le> headingScore doc \<and> headingScore doc \<le> 100"
    using headingScore_tier [of doc] by auto
  have f: "5 dvd fontScore doc \<and> 60 \<le> fontScore doc \<and> fontScore doc \<le> 100"
    using fontScore_tier [of doc] by auto
  have c: "5 dvd contrastScore doc \<and> 55 \<le> contrastScore doc \<and> contrastScore doc \<le> 100"
    using contrastScore_tier [of doc] by auto
  have r: "5 dvd responsiveScore doc \<and> 65 \<le> responsiveScore doc \<and> responsiveScore doc \<le> 100"
    using responsiveScore_tier [of doc] by auto
  have d: "5 dvd ?n" using a h f c r by simp
  have fin: "finalScore (analyzeDocument doc) = ?n div 5"
    by (simp only: finalScore_analyzeDocument Math_round_fifth [OF d])
  have lo: "260 \<le> ?n" and hi: "?n \<le> 500" using a h f c r by linarith+
  have b: "52 \<le> finalScore (analyzeDocument doc)" "finalScore (analyzeDocument doc) \<le> 100"
    using fin lo hi by linarith+
  have ex: "\<exists>d. finalScore (analyzeDocument d) = 52"
    using worst_final by blast
  show ?thesis
    by (intro conjI altScore_tier headingScore_tier fontScore_tier contrastScore_tier
          responsiveScore_tier d fin b ex)
qed

text \<open>The document that fails every check scores 52.\<close>

theorem final_score_range_witness:
  "altScore worstDocument = 30 \<and> headingScore worstDocument = 50
   \<and> fontScore worstDocument = 60 \<and> contrastScore worstDocument = 55
   \<and> responsiveScore worstDocument = 65
   \<and> finalScore (analyzeDocument worstDocument) = (30 + 50 + 60 + 55 + 65) div 5"
  using final_score_range [of worstDocument]
  by (simp add: worst_alt worst_heading worst_font worst_contrast worst_responsive)


section \<open>The alt text check\<close>

lemma trim_empty_iff: "trim v = [] \<longleftrightarrow> list_all is_space v"
proof
  assume "trim v = []"
  then have "dropWhile is_space (rev (dropWhile is_space v)) = []"
    by (simp add: trim_def)
  then have all: "\<forall>c \<in> set (dropWhile is_space v). is_space c"
    by simp
  have "dropWhile is_space v = []"
  proof (cases "dropWhile is_space v")
    case Nil
    then show ?thesis .
  next
    case (Cons c cs)
    then have "\<not> is_space c" using hd_dropWhile [of is_space v] by simp
    moreover have "is_space c" using all Cons by simp
    ultimately show ?thesis by simp
  qed
  then show "list_all is_space v"
    by (simp add: list_all_iff)
next
  assume "list_all is_space v"
  then have d: "dropWhile is_space v = []"
    by (simp add: list_all_iff)
  show "trim v = []" by (simp only: trim_def d rev.simps dropWhile.simps)
qed

text \<open>
  Claim C7. \<open>missingAlt\<close> counts the images whose \<open>alt\<close> attribute is absent or empty
  once trimmed. Without any image the alt sub-score is 100 and the issue has severity
  \<open>ok\<close>. With images, the sub-score is 30 when the ratio of \<open>missingAlt\<close> to the number of
  images is above 0.5, 60 when it is above 0.2 and at most 0.5, and 90 otherwise. The
  issue, the first of the result, has severity \<open>critical\<close> exactly when \<open>missingAlt\<close> is
  positive, and \<open>ok\<close> otherwise.
\<close>

theorem alt_check:
  "missingAlt doc = length (filter altIsEmpty (imgElements doc))
   \<and> (altIsEmpty img \<longleftrightarrow>
        (case getAttribute img ''alt'' of None \<Rightarrow> True | Some v \<Rightarrow> list_all is_space v))
   \<and> (imgElements doc = [] \<longrightarrow>
        altScore doc = 100 \<and> severity (issues (analyzeDocument doc) ! 0) = ok)
   \<and> (imgElements doc \<noteq> [] \<longrightarrow>
        altScore doc =
          (if real (missingAlt doc) / real (length (imgElements doc)) > 1 / 2 then 30
           else if real (missingAlt doc) / real (length (imgElements doc)) > 1 / 5 then 60
           else 90))
   \<and> (severity (issues (analyzeDocument doc) ! 0) = critical \<longleftrightarrow> missingAlt doc > 0)
   \<and> (severity (issues (analyzeDocument doc) ! 0) = ok \<longleftrightarrow> missingAlt doc = 0)"
proof -
  have empty: "altIsEmpty img \<longleftrightarrow>
      (case getAttribute img ''alt'' of None \<Rightarrow> True | Some v \<Rightarrow> list_all is_space v)"
    by (simp add: altIsEmpty_def trim_empty_iff split: option.split)
  have none: "imgElements doc = [] \<longrightarrow>
      altScore doc = 100 \<and> severity (issues (analyzeDocument doc) ! 0) = ok"
    by (simp add: altScore_def issues_analyzeDocument altIssue_def missingAlt_filter)
  have some: "imgElements doc \<noteq> [] \<longrightarrow>
      altScore doc =
        (if real (missingAlt doc) / real (length (imgElements doc)) > 1 / 2 then 30
         else if real (missingAlt doc) / real (length (imgElements doc)) > 1 / 5 then 60
         else 90)"
    by (simp add: altScore_def Let_def)
  have crit: "severity (issues (analyzeDocument doc) ! 0) = critical \<longleftrightarrow> missingAlt doc > 0"
    by (simp add: issues_analyzeDocument altIssue_def)
  have fine: "severity (issues (analyzeDocument doc) ! 0) = ok \<longleftrightarrow> missingAlt doc = 0"
    by (simp add: issues_analyzeDocument altIssue_def)
  show ?thesis
    by (intro conjI missingAlt_filter empty none some crit fine)
qed

lemma scenarioA_imgs: "length (imgElements scenarioA) = 10"
  by (simp add: scenarioA_def imgElements_def dom_defs example_defs)

lemma scenarioA_missingAlt: "missingAlt scenarioA = 6"
  by (simp add: missingAlt_filter scenarioA_def imgElements_def dom_defs example_defs
        altIsEmpty_def trim_def is_space_def)

lemma emptyDocument_imgs: "imgElements emptyDocument = []"
  by (simp add: emptyDocument_def imgElements_def dom_defs example_defs)

text \<open>The document without images, and the one with six undescribed images out of ten.\<close>

theorem alt_check_witness:
  "imgElements emptyDocument = [] \<and> altScore emptyDocument = 100
   \<and> severity (issues (analyzeDocument emptyDocument) ! 0) = ok
   \<and> length (imgElements scenarioA) = 10 \<and> missingAlt scenarioA = 6
   \<and> altScore scenarioA = 30
   \<and> severity (issues (analyzeDocument scenarioA) ! 0) = critical"
proof -
  have ne: "imgElements scenarioA \<noteq> []" using scenarioA_imgs by auto
  show ?thesis
    using alt_check [of emptyDocument] alt_check [of scenarioA] ne
    by (simp add: emptyDocument_imgs scenarioA_imgs scenarioA_missingAlt)
qed

section \<open>The channels \<open>parseCssColor\<close> returns\<close>

text \<open>
  Each capture of the regular expression is a non-empty run of digits and dots, so that
  \<open>parseFloat\<close> makes of it a finite number that is not negative, or \<open>NaN\<close> (when the run
  starts with a dot that no digit follows).
\<close>

lemma scale10_nonneg: "0 \<le> m \<Longrightarrow> 0 \<le> scale10 m e"
  by (simp add: scale10_def)

lemma unsignedLiteral_range:
  "take 8 u \<noteq> ''Infinity'' \<Longrightarrow> nanOrNonNegative (unsignedLiteral u)"
  by (simp add: unsignedLiteral_def Let_def scale10_nonneg)

lemma num_char_plain:
  "is_num_char c \<Longrightarrow> \<not> is_space c \<and> c \<noteq> CHR ''-'' \<and> c \<noteq> CHR ''+'' \<and> c \<noteq> CHR ''I''"
  by (auto simp add: is_num_char_def is_digit_def is_space_def)

lemma parseFloat_numberText:
  assumes "numberText m"
  shows "nanOrNonNegative (parseFloat m)"
proof -
  from assms obtain c t where m: "m = c # t" and c: "is_num_char c"
    by (cases m) (auto simp add: numberText_def)
  have plain: "\<not> is_space c \<and> c \<noteq> CHR ''-'' \<and> c \<noteq> CHR ''+'' \<and> c \<noteq> CHR ''I''"
    using c by (rule num_char_plain)
  then have "take 8 (c # t) \<noteq> ''Infinity''" by (auto simp add: take_Cons')
  then have "nanOrNonNegative (unsignedLiteral (c # t))" by (rule unsignedLiteral_range)
  moreover have "parseFloat (c # t) = unsignedLiteral (c # t)"
    using plain by (simp add: parseFloat_def)
  ultimately show ?thesis by (simp add: m)
qed

lemma number_group_Some:
  assumes "number_group s = Some (m, r)"
  shows "s = m @ r" and "numberText m" and "r = [] \<or> \<not> is_num_char (hd r)"
proof -
  from assms have m: "m = takeWhile is_num_char s" and r: "r = dropWhile is_num_char s"
    and ne: "takeWhile is_num_char s \<noteq> []"
    by (auto simp add: number_group_def split: if_splits)
  show "s = m @ r" by (simp add: m r)
  have "\<forall>x \<in> set (takeWhile is_num_char s). is_num_char x"
    by (auto dest: set_takeWhileD)
  then show "numberText m" using ne by (simp add: numberText_def m list_all_iff)
  show "r = [] \<or> \<not> is_num_char (hd r)"
    using hd_dropWhile [of is_num_char s] by (auto simp add: r)
qed

lemma arguments_captures:
  assumes "arguments s = Some (m1, m2, m3)"
  shows "numberText m1 \<and> numberText m2 \<and> numberText m3"
  using assms
proof -
  from assms obtain t s1 s2 s3 s4 s5 where
    "number_group (dropWhile is_space t) = Some (m1, s1)"
    "number_group s2 = Some (m2, s3)"
    "number_group s4 = Some (m3, s5)"
    by (auto simp add: arguments_def split: list.splits if_splits option.splits)
  then show ?thesis
    by (simp add: number_group_Some(2))
qed

lemma match_here_captures:
  assumes "match_here s = Some (m1, m2, m3)"
  shows "numberText m1 \<and> numberText m2 \<and> numberText m3"
  using assms
  by (auto simp add: match_here_def split: list.splits if_splits option.splits
        dest: arguments_captures)

lemma regex_match_captures:
  "regex_match s = Some (m1, m2, m3) \<Longrightarrow> numberText m1 \<and> numberText m2 \<and> numberText m3"
proof (induction s)
  case Nil
  then show ?case by (simp add: match_here_def)
next
  case (Cons c s)
  show ?case
  proof (cases "match_here (c # s)")
    case None
    with Cons show ?thesis by simp
  next
    case (Some m)
    with Cons.prems have "match_here (c # s) = Some (m1, m2, m3)" by simp
    then show ?thesis by (rule match_here_captures)
  qed
qed

lemma parseCssColor_channels:
  assumes "parseCssColor s = Some (RGB x y z)"
  shows "nanOrNonNegative x \<and> nanOrNonNegative y \<and> nanOrNonNegative z"
proof -
  from assms obtain m1 m2 m3 where m: "regex_match s = Some (m1, m2, m3)"
    and x: "x = parseFloat m1" and y: "y = parseFloat m2" and z: "z = parseFloat m3"
    by (auto simp add: parseCssColor_def split: if_splits option.splits)
  from regex_match_captures [OF m] show ?thesis
    by (simp add: x y z parseFloat_numberText)
qed

section \<open>The matcher and the language of the pattern\<close>

text \<open>
  A greedy run followed by a piece that cannot start with a character of the run is the
  only way to split the text there, which is why the matcher never has to give back part
  of a run.
\<close>

lemma space_not_num: "is_space c \<Longrightarrow> \<not> is_num_char c"
  by (auto simp add: is_num_char_def is_digit_def is_space_def)

lemma comma_plain: "\<not> is_space CHR '',''" "\<not> is_num_char CHR '',''"
  by (simp_all add: is_num_char_def is_digit_def is_space_def)

lemma dropWhile_run:
  assumes "list_all P w" and "r = [] \<or> \<not> P (hd r)"
  shows "dropWhile P (w @ r) = r"
proof -
  have "dropWhile P (w @ r) = dropWhile P r"
    using assms(1) by (simp add: list_all_iff)
  also have "\<dots> = r" using assms(2) by (cases r) auto
  finally show ?thesis .
qed

lemma takeWhile_run:
  assumes "list_all P w" and "r = [] \<or> \<not> P (hd r)"
  shows "takeWhile P (w @ r) = w"
proof -
  have "takeWhile P (w @ r) = w @ takeWhile P r"
    using assms(1) by (simp add: list_all_iff)
  also have "takeWhile P r = []" using assms(2) by (cases r) auto
  finally show ?thesis by simp
qed

lemma number_group_run:
  assumes "numberText n" and "r = [] \<or> \<not> is_num_char (hd r)"
  shows "number_group (n @ r) = Some (n, r)"
  using assms
  by (simp add: number_group_def numberText_def takeWhile_run dropWhile_run)

lemma number_group_start:
  assumes "numberText n"
  shows "number_group (n @ r) \<noteq> None"
proof -
  have "takeWhile is_num_char (n @ r) = n @ takeWhile is_num_char r"
    using assms by (simp add: numberText_def list_all_iff)
  then show ?thesis using assms by (simp add: number_group_def numberText_def)
qed

lemma comma_sep_run:
  assumes "spaces w2" and "spaces w3" and "r = [] \<or> \<not> is_space (hd r)"
  shows "comma_sep (w2 @ '','' @ w3 @ r) = Some r"
proof -
  have "dropWhile is_space (w2 @ CHR '','' # w3 @ r) = CHR '','' # w3 @ r"
    using assms(1) by (intro dropWhile_run) (simp_all add: spaces_def comma_plain)
  moreover have "dropWhile is_space (w3 @ r) = r"
    using assms(2,3) by (intro dropWhile_run) (simp_all add: spaces_def)
  ultimately show ?thesis by (simp add: comma_sep_def)
qed

lemma comma_sep_Some:
  assumes "comma_sep s = Some r"
  shows "\<exists>w2 w3. s = w2 @ '','' @ w3 @ r \<and> spaces w2 \<and> spaces w3"
proof -
  from assms obtain t where d: "dropWhile is_space s = CHR '','' # t"
    and r: "r = dropWhile is_space t"
    by (auto simp add: comma_sep_def split: list.splits if_splits)
  have "s = takeWhile is_space s @ '','' @ takeWhile is_space t @ r"
    using takeWhile_dropWhile_id [of is_space s] by (simp add: d r)
  moreover have "spaces (takeWhile is_space s)" "spaces (takeWhile is_space t)"
    by (auto simp add: spaces_def list_all_iff dest: set_takeWhileD)
  ultimately show ?thesis by blast
qed

lemma number_first:
  "numberText n \<Longrightarrow> n @ r = [] \<or> \<not> is_space (hd (n @ r))"
  by (cases n) (auto simp add: numberText_def dest: space_not_num)

lemma separator_first:
  "spaces w \<Longrightarrow> w @ '','' @ r = [] \<or> \<not> is_num_char (hd (w @ '','' @ r))"
  by (cases w) (simp_all add: spaces_def comma_plain space_not_num)

lemma arguments_complete:
  assumes "spaces w1" "numberText n1" "spaces w2" "spaces w3" "numberText n2"
    "spaces w4" "spaces w5" "numberText n3"
  shows "arguments (''('' @ w1 @ n1 @ w2 @ '','' @ w3 @ n2 @ w4 @ '','' @ w5 @ n3 @ rest)
           \<noteq> None"
proof -
  let ?s5 = "n3 @ rest"
  let ?s4 = "w4 @ '','' @ w5 @ ?s5"
  let ?s3 = "n2 @ ?s4"
  let ?s2 = "w2 @ '','' @ w3 @ ?s3"
  let ?s1 = "n1 @ ?s2"
  have "list_all is_space w1" using assms(1) by (simp add: spaces_def)
  then have a: "dropWhile is_space (w1 @ ?s1) = ?s1"
    using number_first [OF assms(2)] by (rule dropWhile_run)
  have b: "number_group ?s1 = Some (n1, ?s2)"
    using assms(2) separator_first [OF assms(3)] by (rule number_group_run)
  have c: "comma_sep ?s2 = Some ?s3"
    using assms(3,4) number_first [OF assms(5)] by (rule comma_sep_run)
  have d: "number_group ?s3 = Some (n2, ?s4)"
    using assms(5) separator_first [OF assms(6)] by (rule number_group_run)
  have e: "comma_sep ?s4 = Some ?s5"
    using assms(6,7) number_first [OF assms(8)] by (rule comma_sep_run)
  from number_group_start [OF assms(8), of rest] obtain m3 r3 where
    f: "number_group ?s5 = Some (m3, r3)" by auto
  have "arguments (CHR ''('' # w1 @ ?s1) = Some (n1, n2, m3)"
    by (simp only: arguments_def list.case a b c d e f option.case prod.case simp_thms
          if_False)
  then show ?thesis by simp
qed

lemma arguments_sound:
  assumes "arguments s \<noteq> None"
  shows "startsWithArguments s"
proof -
  from assms obtain t m1 s1 s2 m2 s3 s4 m3 s5 where s: "s = CHR ''('' # t"
    and g1: "number_group (dropWhile is_space t) = Some (m1, s1)"
    and c1: "comma_sep s1 = Some s2"
    and g2: "number_group s2 = Some (m2, s3)"
    and c2: "comma_sep s3 = Some s4"
    and g3: "number_group s4 = Some (m3, s5)"
    by (auto simp add: arguments_def split: list.splits if_splits option.splits)
  from comma_sep_Some [OF c1] obtain w2 w3 where
    s1: "s1 = w2 @ '','' @ w3 @ s2" and w23: "spaces w2" "spaces w3" by blast
  from comma_sep_Some [OF c2] obtain w4 w5 where
    s3: "s3 = w4 @ '','' @ w5 @ s4" and w45: "spaces w4" "spaces w5" by blast
  have w1: "spaces (takeWhile is_space t)"
    by (auto simp add: spaces_def list_all_iff dest: set_takeWhileD)
  have "t = takeWhile is_space t @ m1 @ s1"
    using takeWhile_dropWhile_id [of is_space t] number_group_Some(1) [OF g1] by simp
  then have "s = ''('' @ takeWhile is_space t @ m1 @ w2 @ '','' @ w3 @ m2 @ w4 @ '','' @ w5
      @ m3 @ s5"
    using s s1 s3 number_group_Some(1) [OF g2] number_group_Some(1) [OF g3] by simp
  then show ?thesis
    unfolding startsWithArguments_def
    using w1 w23 w45 number_group_Some(2) [OF g1] number_group_Some(2) [OF g2]
      number_group_Some(2) [OF g3]
    by blast
qed

lemma arguments_iff: "arguments s \<noteq> None \<longleftrightarrow> startsWithArguments s"
proof
  assume "arguments s \<noteq> None"
  then show "startsWithArguments s" by (rule arguments_sound)
next
  assume "startsWithArguments s"
  then show "arguments s \<noteq> None"
    unfolding startsWithArguments_def using arguments_complete by blast
qed

lemma upper_char_letters:
  "upper_char c = CHR ''R'' \<longleftrightarrow> letter_i CHR ''r'' CHR ''R'' c"
  "upper_char c = CHR ''G'' \<longleftrightarrow> letter_i CHR ''g'' CHR ''G'' c"
  "upper_char c = CHR ''B'' \<longleftrightarrow> letter_i CHR ''b'' CHR ''B'' c"
  "upper_char c = CHR ''A'' \<longleftrightarrow> letter_i CHR ''a'' CHR ''A'' c"
  by (auto simp add: upper_char_def letter_i_def)


lemma rgbKeyword_cases:
  "rgbKeyword k \<longleftrightarrow>
     (\<exists>c1 c2 c3. k = [c1, c2, c3] \<and> letter_i CHR ''r'' CHR ''R'' c1
        \<and> letter_i CHR ''g'' CHR ''G'' c2 \<and> letter_i CHR ''b'' CHR ''B'' c3)
     \<or> (\<exists>c1 c2 c3 c4. k = [c1, c2, c3, c4] \<and> letter_i CHR ''r'' CHR ''R'' c1
        \<and> letter_i CHR ''g'' CHR ''G'' c2 \<and> letter_i CHR ''b'' CHR ''B'' c3
        \<and> letter_i CHR ''a'' CHR ''A'' c4)"
  by (auto simp add: rgbKeyword_def map_eq_Cons_conv upper_char_letters)

lemma arguments_parenthesis: "arguments (a # u) \<noteq> None \<Longrightarrow> a = CHR ''(''"
  by (simp add: arguments_def split: if_splits)

lemma match_here_sound:
  assumes "match_here s \<noteq> None"
  shows "startsWithPattern s"
proof -
  from assms obtain c1 c2 c3 t where s: "s = c1 # c2 # c3 # t"
    and l: "letter_i CHR ''r'' CHR ''R'' c1" "letter_i CHR ''g'' CHR ''G'' c2"
      "letter_i CHR ''b'' CHR ''B'' c3"
    by (auto simp add: match_here_def split: list.splits if_splits)
  have k3: "rgbKeyword [c1, c2, c3]" using l by (auto simp add: rgbKeyword_cases)
  show ?thesis
  proof (cases "arguments t \<noteq> None")
    case True
    then have "startsWithArguments t" using arguments_iff by blast
    moreover have "s = [c1, c2, c3] @ t" by (simp add: s)
    ultimately show ?thesis unfolding startsWithPattern_def using k3 by blast
  next
    case False
    with assms obtain a u where t: "t = a # u" and a: "letter_i CHR ''a'' CHR ''A'' a"
      and u: "arguments u \<noteq> None"
      by (auto simp add: match_here_def s l split: list.splits if_splits option.splits)
    have "rgbKeyword [c1, c2, c3, a]" using l a by (auto simp add: rgbKeyword_cases)
    moreover have "startsWithArguments u" using u arguments_iff by blast
    moreover have "s = [c1, c2, c3, a] @ u" by (simp add: s t)
    ultimately show ?thesis unfolding startsWithPattern_def by blast
  qed
qed

lemma match_here_complete:
  assumes "rgbKeyword k" and "startsWithArguments u"
  shows "match_here (k @ u) \<noteq> None"
proof -
  have u: "arguments u \<noteq> None" using assms(2) arguments_iff by blast
  then obtain p r where pr: "u = p # r" by (cases u) (auto simp add: arguments_def)
  with u have p: "p = CHR ''(''" using arguments_parenthesis by blast
  from assms(1) consider
    (three) c1 c2 c3 where "k = [c1, c2, c3]" "letter_i CHR ''r'' CHR ''R'' c1"
      "letter_i CHR ''g'' CHR ''G'' c2" "letter_i CHR ''b'' CHR ''B'' c3"
    | (four) c1 c2 c3 c4 where "k = [c1, c2, c3, c4]" "letter_i CHR ''r'' CHR ''R'' c1"
      "letter_i CHR ''g'' CHR ''G'' c2" "letter_i CHR ''b'' CHR ''B'' c3"
      "letter_i CHR ''a'' CHR ''A'' c4"
    by (auto simp add: rgbKeyword_cases)
  then show ?thesis
  proof cases
    case three
    have "\<not> letter_i CHR ''a'' CHR ''A'' p" by (simp add: p letter_i_def)
    then have "match_here (k @ u) = arguments u"
      using three by (simp add: match_here_def pr)
    then show ?thesis using u by simp
  next
    case four
    then have "match_here (k @ u) =
        (case arguments u of None \<Rightarrow> arguments (c4 # u) | Some m \<Rightarrow> Some m)"
      by (simp add: match_here_def)
    then show ?thesis using u by (auto split: option.splits)
  qed
qed

lemma match_here_iff: "match_here s \<noteq> None \<longleftrightarrow> startsWithPattern s"
proof
  assume "match_here s \<noteq> None"
  then show "startsWithPattern s" by (rule match_here_sound)
next
  assume "startsWithPattern s"
  then show "match_here s \<noteq> None"
    unfolding startsWithPattern_def using match_here_complete by blast
qed

lemma containsPattern_Nil: "\<not> containsPattern []"
  by (auto simp add: containsPattern_def startsWithPattern_def rgbKeyword_def)

lemma containsPattern_Cons:
  "containsPattern (c # s) \<longleftrightarrow> startsWithPattern (c # s) \<or> containsPattern s"
proof
  assume "containsPattern (c # s)"
  then obtain pre t where pt: "c # s = pre @ t" and m: "startsWithPattern t"
    by (auto simp add: containsPattern_def)
  show "startsWithPattern (c # s) \<or> containsPattern s"
  proof (cases pre)
    case Nil
    with pt m show ?thesis by simp
  next
    case (Cons c' pre')
    with pt have "s = pre' @ t" by simp
    with m show ?thesis by (auto simp add: containsPattern_def)
  qed
next
  assume "startsWithPattern (c # s) \<or> containsPattern s"
  then show "containsPattern (c # s)"
  proof
    assume "startsWithPattern (c # s)"
    then have "c # s = [] @ (c # s) \<and> startsWithPattern (c # s)" by simp
    then show ?thesis unfolding containsPattern_def by blast
  next
    assume "containsPattern s"
    then obtain pre t where "s = pre @ t" "startsWithPattern t"
      by (auto simp add: containsPattern_def)
    then have "c # s = (c # pre) @ t \<and> startsWithPattern t" by simp
    then show ?thesis unfolding containsPattern_def by blast
  qed
qed

lemma regex_match_iff: "regex_match s \<noteq> None \<longleftrightarrow> containsPattern s"
proof (induction s)
  case Nil
  show ?case by (simp add: containsPattern_Nil match_here_def)
next
  case (Cons c s)
  have "regex_match (c # s) \<noteq> None \<longleftrightarrow> match_here (c # s) \<noteq> None \<or> regex_match s \<noteq> None"
    by (simp split: option.split)
  then show ?case
    by (simp only: Cons.IH match_here_iff containsPattern_Cons)
qed

text \<open>
  Claim C3, as amended. \<open>parseCssColor\<close> succeeds exactly on the strings that contain,
  at some position, the word \<open>rgb\<close> or \<open>rgba\<close> in any mix of cases, an opening parenthesis
  and three non-empty runs of digits and dots separated by commas, with optional white
  space around each run; what comes before and after is ignored. It returns none for
  every other string.
\<close>

theorem parse_accepts_pattern: "parseCssColor s \<noteq> None \<longleftrightarrow> containsPattern s"
proof (cases "s = []")
  case True
  then show ?thesis by (simp add: parseCssColor_def containsPattern_Nil)
next
  case False
  then have "parseCssColor s \<noteq> None \<longleftrightarrow> regex_match s \<noteq> None"
    by (simp add: parseCssColor_def split: option.split)
  then show ?thesis by (simp only: regex_match_iff)
qed

text \<open>
  The claim as first stated has \<open>parseCssColor\<close> return none for every input that is not
  of the form \<open>rgb(r,g,b)\<close> or \<open>rgba(r,g,b,a)\<close>. A gradient is not of that form, and
  \<open>parseCssColor\<close> returns the first colour written inside it.
\<close>

theorem parse_accepts_pattern_counterexample:
  "\<not> rgbFunctionShape ''linear-gradient(rgb(1, 2, 3), rgb(4, 5, 6))''
   \<and> parseCssColor ''linear-gradient(rgb(1, 2, 3), rgb(4, 5, 6))''
       = Some (RGB (Fin 1) (Fin 2) (Fin 3))"
  by (simp add: rgbFunctionShape_def string_defs regex_defs)

lemma parse_examples:
  "parseCssColor ''rgb(10, 20, 30)'' = Some (RGB (Fin 10) (Fin 20) (Fin 30))"
  "parseCssColor ''rgba(10,20,30,0.5)'' = Some (RGB (Fin 10) (Fin 20) (Fin 30))"
  "parseCssColor ''transparent'' = None"
  "parseCssColor ''#ffffff'' = None"
  "parseCssColor ''blue'' = None"
  "parseCssColor ''hsl(210, 50%, 40%)'' = None"
  by (simp_all add: string_defs regex_defs)

text \<open>
  The two accepted examples of the specification, and its rejected ones: the keyword
  \<open>transparent\<close>, a hex colour, a named colour and an \<open>hsl\<close> colour.
\<close>

theorem parse_accepts_pattern_witness:
  "containsPattern ''rgb(10, 20, 30)''
   \<and> containsPattern ''rgba(10,20,30,0.5)''
   \<and> \<not> containsPattern ''transparent''
   \<and> \<not> containsPattern ''#ffffff''
   \<and> \<not> containsPattern ''blue''
   \<and> \<not> containsPattern ''hsl(210, 50%, 40%)''"
  using parse_accepts_pattern [of "''rgb(10, 20, 30)''"]
    parse_accepts_pattern [of "''rgba(10,20,30,0.5)''"]
    parse_accepts_pattern [of "''transparent''"]
    parse_accepts_pattern [of "''#ffffff''"]
    parse_accepts_pattern [of "''blue''"]
    parse_accepts_pattern [of "''hsl(210, 50%, 40%)''"]
  by (simp add: parse_examples)

section \<open>The range of the luminance and of the contrast ratio\<close>

lemma linearize_finite:
  assumes "0 \<le> c"
  shows "\<exists>l. 0 \<le> l \<and> linearize (Fin (c / 255)) = Fin l"
proof (cases "c / 255 \<le> 0.03928")
  case True
  then have "linearize (Fin (c / 255)) = Fin (c / 255 / 12.92)"
    by (simp add: linearize_def)
  moreover have "0 \<le> c / 255 / 12.92" using assms by simp
  ultimately show ?thesis by blast
next
  case False
  have base: "0 \<le> (c / 255 + 0.055) / 1.055" using assms by simp
  from False have "linearize (Fin (c / 255))
      = Fin (((c / 255 + 0.055) / 1.055) powr 2.4)"
    using base by (simp add: linearize_def)
  moreover have "0 \<le> ((c / 255 + 0.055) / 1.055) powr 2.4" by simp
  ultimately show ?thesis by blast
qed

lemma js_add_NaN_right: "js_add x NaN = NaN"
  by (cases x) simp_all

lemma js_mul_NaN_right: "js_mul x NaN = NaN"
  by (cases x) simp_all

lemma linearize_NaN: "linearize NaN = NaN"
  by (simp add: linearize_def)

lemma luminance_finite:
  assumes "0 \<le> x" and "0 \<le> y" and "0 \<le> z"
  shows "\<exists>l. 0 \<le> l \<and> relativeLuminance (Fin x) (Fin y) (Fin z) = Fin l"
proof -
  from linearize_finite [OF assms(1)] obtain lx where
    lx: "0 \<le> lx" "linearize (Fin (x / 255)) = Fin lx" by blast
  from linearize_finite [OF assms(2)] obtain ly where
    ly: "0 \<le> ly" "linearize (Fin (y / 255)) = Fin ly" by blast
  from linearize_finite [OF assms(3)] obtain lz where
    lz: "0 \<le> lz" "linearize (Fin (z / 255)) = Fin lz" by blast
  have "relativeLuminance (Fin x) (Fin y) (Fin z)
      = Fin (0.2126 * lx + 0.7152 * ly + 0.0722 * lz)"
    by (simp add: relativeLuminance_def Let_def lx(2) ly(2) lz(2))
  moreover have "0 \<le> 0.2126 * lx + 0.7152 * ly + 0.0722 * lz"
    using lx(1) ly(1) lz(1) by simp
  ultimately show ?thesis by blast
qed

lemma luminance_NaN:
  "relativeLuminance NaN g b = NaN"
  "relativeLuminance r NaN b = NaN"
  "relativeLuminance r g NaN = NaN"
  by (simp_all add: relativeLuminance_def Let_def linearize_NaN js_add_NaN_right)

lemma luminance_range:
  assumes "nanOrNonNegative r" and "nanOrNonNegative g" and "nanOrNonNegative b"
  shows "nanOrNonNegative (relativeLuminance r g b)"
proof (cases "\<exists>x y z. r = Fin x \<and> g = Fin y \<and> b = Fin z")
  case True
  then obtain x y z where "r = Fin x" "g = Fin y" "b = Fin z" by blast
  with assms luminance_finite [of x y z] show ?thesis by auto
next
  case False
  with assms have "r = NaN \<or> g = NaN \<or> b = NaN"
    by (cases r; cases g; cases b) auto
  then show ?thesis by (auto simp add: luminance_NaN)
qed

lemma ratio_range:
  assumes "nanOrNonNegative l1" and "nanOrNonNegative l2"
  shows "js_div (js_add (Math_max l1 l2) (Fin 0.05)) (js_add (Math_min l1 l2) (Fin 0.05))
           \<noteq> Fin (- 1)"
proof (cases "\<exists>a b. l1 = Fin a \<and> l2 = Fin b")
  case True
  then obtain a b where ab: "l1 = Fin a" "l2 = Fin b" by blast
  with assms have pos: "0 \<le> a" "0 \<le> b" by simp_all
  have "0 < (max a b + 0.05) / (min a b + 0.05)"
    using pos by (simp add: add_nonneg_pos)
  moreover have "js_div (js_add (Math_max l1 l2) (Fin 0.05)) (js_add (Math_min l1 l2) (Fin 0.05))
      = Fin ((max a b + 0.05) / (min a b + 0.05))"
    using pos by (auto simp add: ab Math_max_def Math_min_def max_def min_def)
  ultimately show ?thesis by simp
next
  case False
  with assms have "l1 = NaN \<or> l2 = NaN" by (cases l1; cases l2) auto
  then show ?thesis by (auto simp add: Math_max_def Math_min_def)
qed


lemma contrast_of_parsed:
  assumes "parseCssColor fg = Some (RGB fr fgr fb)"
    and "parseCssColor bg = Some (RGB br bgr bb)"
  shows "computeContrastRatio fg bg =
     js_div (js_add (Math_max (relativeLuminance fr fgr fb) (relativeLuminance br bgr bb))
               (Fin 0.05))
       (js_add (Math_min (relativeLuminance fr fgr fb) (relativeLuminance br bgr bb))
          (Fin 0.05))"
  by (simp add: computeContrastRatio_def assms Let_def)

lemma sentinel_iff_unparsed:
  "computeContrastRatio fg bg = Fin (- 1)
     \<longleftrightarrow> parseCssColor fg = None \<or> parseCssColor bg = None"
proof (cases "parseCssColor fg")
  case None
  then show ?thesis by (simp add: computeContrastRatio_def)
next
  case (Some f)
  note f = this
  show ?thesis
  proof (cases "parseCssColor bg")
    case None
    then show ?thesis by (simp add: computeContrastRatio_def split: option.split rgbColor.split)
  next
    case (Some b)
    obtain fr fgr fb where fc: "f = RGB fr fgr fb" by (cases f)
    obtain br bgr bb where bc: "b = RGB br bgr bb" by (cases b)
    have l1: "nanOrNonNegative (relativeLuminance fr fgr fb)"
      using parseCssColor_channels [of fg fr fgr fb] f fc by (simp add: luminance_range)
    have l2: "nanOrNonNegative (relativeLuminance br bgr bb)"
      using parseCssColor_channels [of bg br bgr bb] Some bc by (simp add: luminance_range)
    have "computeContrastRatio fg bg \<noteq> Fin (- 1)"
      using contrast_of_parsed [of fg fr fgr fb bg br bgr bb] f fc Some bc
        ratio_range [OF l1 l2] by simp
    then show ?thesis using f Some by simp
  qed
qed

text \<open>
  Claim C6. \<open>computeContrastRatio\<close> returns \<open>-1\<close> if and only if one of the two colour
  strings fails to parse. When both parse, it returns the greater of the two relative
  luminances plus 0.05, divided by the smaller plus 0.05. The contrast check of
  \<open>analyzeDocument\<close> counts the elements whose ratio is above 0 and below 4.5, so that an
  element whose ratio is not above 0 is never counted.
\<close>

theorem contrast_sentinel:
  "(computeContrastRatio fg bg = Fin (- 1)
      \<longleftrightarrow> parseCssColor fg = None \<or> parseCssColor bg = None)
   \<and> (parseCssColor fg = Some (RGB fr fgr fb) \<and> parseCssColor bg = Some (RGB br bgr bb) \<longrightarrow>
        computeContrastRatio fg bg =
          js_div (js_add (Math_max (relativeLuminance fr fgr fb) (relativeLuminance br bgr bb))
                    (Fin 0.05))
            (js_add (Math_min (relativeLuminance fr fgr fb) (relativeLuminance br bgr bb))
               (Fin 0.05)))
   \<and> lowContrastCount doc =
        length (filter (\<lambda>el. js_gt (targetContrast el) (Fin 0)
                          \<and> js_lt (targetContrast el) (Fin 4.5)) (contrastTargets doc))
   \<and> (\<not> js_gt (targetContrast el) (Fin 0) \<longrightarrow> \<not> isLowContrast el)"
proof -
  have count: "lowContrastCount doc =
        length (filter (\<lambda>el. js_gt (targetContrast el) (Fin 0)
                          \<and> js_lt (targetContrast el) (Fin 4.5)) (contrastTargets doc))"
  proof -
    have "isLowContrast = (\<lambda>el. js_gt (targetContrast el) (Fin 0)
                          \<and> js_lt (targetContrast el) (Fin 4.5))"
      by (rule ext) (simp add: isLowContrast_def Let_def)
    then show ?thesis by (simp only: lowContrastCount_filter)
  qed
  have excluded: "\<not> js_gt (targetContrast el) (Fin 0) \<longrightarrow> \<not> isLowContrast el"
    by (simp add: isLowContrast_def Let_def)
  show ?thesis
    using sentinel_iff_unparsed [of fg bg] contrast_of_parsed [of fg fr fgr fb bg br bgr bb]
      count excluded
    by blast
qed

lemma parse_oklch: "parseCssColor ''oklch(0.5 0.2 30)'' = None"
  by (simp add: string_defs regex_defs)

lemma oklch_targets:
  "map targetContrast (contrastTargets oklchDocument) = [Fin (- 1)]"
  by (simp add: contrastTargets_def oklchDocument_def dom_defs example_defs targetContrast_def
        targetBackground_def computeContrastRatio_def parse_oklch)

lemma oklch_not_counted:
  "filter (\<lambda>el. js_gt (targetContrast el) (Fin 0) \<and> js_lt (targetContrast el) (Fin 4.5))
     (contrastTargets oklchDocument) = []"
  by (simp add: contrastTargets_def oklchDocument_def dom_defs example_defs targetContrast_def
        targetBackground_def computeContrastRatio_def parse_oklch js_gt_def)

text \<open>
  A colour that does not parse gives the ratio \<open>-1\<close> and is not counted; black on white
  parses and gives 21.
\<close>

theorem contrast_sentinel_witness:
  "parseCssColor ''oklch(0.5 0.2 30)'' = None
   \<and> computeContrastRatio ''oklch(0.5 0.2 30)'' ''rgb(255, 255, 255)'' = Fin (- 1)
   \<and> computeContrastRatio ''rgb(0, 0, 0)'' ''rgb(255, 255, 255)'' = Fin 21
   \<and> map targetContrast (contrastTargets oklchDocument) = [Fin (- 1)]
   \<and> lowContrastCount oklchDocument = 0"
  using contrast_sentinel [of "''oklch(0.5 0.2 30)''" "''rgb(255, 255, 255)''" _ _ _ _ _ _
      oklchDocument]
    contrast_sentinel [of "''rgb(0, 0, 0)''" "''rgb(255, 255, 255)''" "Fin 0" "Fin 0" "Fin 0"
      "Fin 255" "Fin 255" "Fin 255"]
    oklch_not_counted
  by (simp add: parse_oklch parse_black parse_white luminance_black luminance_white
        oklch_targets Math_max_def Math_min_def)

lemma parse_black_dense: "parseCssColor ''rgb(0,0,0)'' = Some (RGB (Fin 0) (Fin 0) (Fin 0))"
  by (simp add: string_defs regex_defs)

lemma parse_white_dense:
  "parseCssColor ''rgb(255,255,255)'' = Some (RGB (Fin 255) (Fin 255) (Fin 255))"
  by (simp add: string_defs regex_defs)

lemma parse_dot: "parseCssColor ''rgb(., 0, 0)'' = Some (RGB NaN (Fin 0) (Fin 0))"
  by (simp add: string_defs regex_defs)

text \<open>
  Claim C8, as amended. In exact arithmetic the contrast ratio of \<open>rgb(0,0,0)\<close> and
  \<open>rgb(255,255,255)\<close> is 21. For every colour string that \<open>parseCssColor\<close> accepts with three
  channels that are numbers from 0 to 255, the range of a colour channel, the contrast
  ratio of the string with itself is 1; when a channel is \<open>NaN\<close>, the ratio is \<open>NaN\<close>.
\<close>

theorem contrast_reference_values:
  "computeContrastRatio ''rgb(0,0,0)'' ''rgb(255,255,255)'' = Fin 21
   \<and> (parseCssColor c = Some (RGB (Fin x) (Fin y) (Fin z))
        \<and> x \<le> 255 \<and> y \<le> 255 \<and> z \<le> 255 \<longrightarrow>
        computeContrastRatio c c = Fin 1)
   \<and> (parseCssColor c = Some (RGB r g b) \<and> (isNaN r \<or> isNaN g \<or> isNaN b) \<longrightarrow>
        computeContrastRatio c c = NaN)"
proof (intro conjI impI)
  show "computeContrastRatio ''rgb(0,0,0)'' ''rgb(255,255,255)'' = Fin 21"
    by (simp add: computeContrastRatio_def parse_black_dense parse_white_dense
          luminance_black luminance_white Math_max_def Math_min_def)
next
  assume "parseCssColor c = Some (RGB (Fin x) (Fin y) (Fin z))
    \<and> x \<le> 255 \<and> y \<le> 255 \<and> z \<le> 255"
  then have p: "parseCssColor c = Some (RGB (Fin x) (Fin y) (Fin z))" by simp
  from parseCssColor_channels [OF p] have "0 \<le> x" "0 \<le> y" "0 \<le> z" by simp_all
  from luminance_finite [OF this] obtain l where
    l: "0 \<le> l" "relativeLuminance (Fin x) (Fin y) (Fin z) = Fin l" by blast
  have "l + 0.05 \<noteq> 0" using l(1) by simp
  then show "computeContrastRatio c c = Fin 1"
    by (simp add: contrast_of_parsed [OF p p] l(2) Math_max_def Math_min_def)
next
  assume "parseCssColor c = Some (RGB r g b) \<and> (isNaN r \<or> isNaN g \<or> isNaN b)"
  then have p: "parseCssColor c = Some (RGB r g b)" and n: "r = NaN \<or> g = NaN \<or> b = NaN"
    by (auto elim: isNaN.elims)
  from n have "relativeLuminance r g b = NaN" by (auto simp add: luminance_NaN)
  then show "computeContrastRatio c c = NaN"
    by (simp add: contrast_of_parsed [OF p p] Math_max_def Math_min_def)
qed

text \<open>
  The claim as first stated covers every string that \<open>parseCssColor\<close> accepts. It accepts
  \<open>rgb(., 0, 0)\<close>, whose first channel is \<open>parseFloat(".")\<close>, that is \<open>NaN\<close>, and the ratio of
  that string with itself is \<open>NaN\<close>, not 1.
\<close>

theorem contrast_reference_values_counterexample:
  "parseCssColor ''rgb(., 0, 0)'' = Some (RGB NaN (Fin 0) (Fin 0))
   \<and> computeContrastRatio ''rgb(., 0, 0)'' ''rgb(., 0, 0)'' = NaN
   \<and> computeContrastRatio ''rgb(., 0, 0)'' ''rgb(., 0, 0)'' \<noteq> Fin 1"
  by (simp add: parse_dot computeContrastRatio_def luminance_NaN Math_max_def Math_min_def)

text \<open>Black with itself, white with itself, and the string with a channel that is only a dot.\<close>

theorem contrast_reference_values_witness:
  "parseCssColor ''rgb(0, 0, 0)'' = Some (RGB (Fin 0) (Fin 0) (Fin 0))
   \<and> computeContrastRatio ''rgb(0, 0, 0)'' ''rgb(0, 0, 0)'' = Fin 1
   \<and> parseCssColor ''rgb(255, 255, 255)'' = Some (RGB (Fin 255) (Fin 255) (Fin 255))
   \<and> computeContrastRatio ''rgb(255, 255, 255)'' ''rgb(255, 255, 255)'' = Fin 1
   \<and> parseCssColor ''rgb(., 0, 0)'' = Some (RGB NaN (Fin 0) (Fin 0))
   \<and> computeContrastRatio ''rgb(., 0, 0)'' ''rgb(., 0, 0)'' = NaN"
  using contrast_reference_values [of "''rgb(0, 0, 0)''" 0 0 0]
    contrast_reference_values [of "''rgb(255, 255, 255)''" 255 255 255]
    contrast_reference_values [of "''rgb(., 0, 0)''" _ _ _ NaN "Fin 0" "Fin 0"]
  by (simp add: parse_black parse_white parse_dot)

section \<open>The heading structure check\<close>

lemma headingLevel_levelOf:
  assumes "localName (fst h) \<in> set [''h1'', ''h2'', ''h3'', ''h4'', ''h5'', ''h6'']"
  shows "headingLevel h = Some (levelOf h)"
proof -
  from assms consider "localName (fst h) = ''h1''" | "localName (fst h) = ''h2''"
    | "localName (fst h) = ''h3''" | "localName (fst h) = ''h4''"
    | "localName (fst h) = ''h5''" | "localName (fst h) = ''h6''"
    by auto
  then show ?thesis
    by cases (simp_all add: headingLevel_def levelOf_def tagName_def string_defs)
qed

lemma headingTags_levels:
  "h \<in> set (headingTags doc) \<Longrightarrow> headingLevel h = Some (levelOf h)"
  by (rule headingLevel_levelOf) (simp add: headingTags_def querySelectorAll_def)

lemma fold_headingStep:
  assumes "\<forall>h \<in> set hs. headingLevel h = Some (levelOf h)"
  shows "fst (fold headingStep hs (j, Some (Some l))) = j + jumpsIn (l # map levelOf hs)"
  using assms
proof (induction hs arbitrary: j l)
  case Nil
  then show ?case by simp
next
  case (Cons h hs)
  have lvl: "headingLevel h = Some (levelOf h)" using Cons.prems by simp
  have step: "headingStep h (j, Some (Some l)) =
      (if levelOf h - l > 1 then j + 1 else j, Some (Some (levelOf h)))"
    by (simp add: headingStep_def lvl)
  have rest: "\<forall>h \<in> set hs. headingLevel h = Some (levelOf h)" using Cons.prems by simp
  show ?case
    by (simp add: step Cons.IH [OF rest])
qed

lemma headingJumps_jumpsIn: "headingJumps doc = jumpsIn (map levelOf (headingTags doc))"
proof (cases "headingTags doc")
  case Nil
  then show ?thesis by (simp add: headingJumps_def)
next
  case (Cons h hs)
  have all: "\<forall>x \<in> set (h # hs). headingLevel x = Some (levelOf x)"
    using headingTags_levels [of _ doc] Cons by simp
  then have first: "headingStep h (0, None) = (0, Some (Some (levelOf h)))"
    by (simp add: headingStep_def)
  have rest: "\<forall>x \<in> set hs. headingLevel x = Some (levelOf x)" using all by simp
  show ?thesis
    by (simp add: headingJumps_def Cons first fold_headingStep [OF rest])
qed

lemma jumpsIn_zero: "jumpsIn ls = 0 \<longleftrightarrow> risesByAtMostOne ls"
  by (induction ls rule: jumpsIn.induct) auto

text \<open>
  Claim C4, as amended. \<open>headingJumps\<close> counts the headings whose level exceeds the level
  of the heading before them by more than 1; a heading at most one level up, level, or
  any number of levels down is never counted. For every document with at least one
  heading in which every heading exceeds the one before it by at most one level, the
  heading sub-score is 100 and the issue, the second of the result, has severity \<open>ok\<close>.
  For a document without headings the sub-score is 50 and the severity \<open>warning\<close>.
\<close>

theorem heading_check:
  "headingJumps doc = jumpsIn (map levelOf (headingTags doc))
   \<and> (headingTags doc \<noteq> [] \<and> risesByAtMostOne (map levelOf (headingTags doc)) \<longrightarrow>
        headingScore doc = 100 \<and> severity (issues (analyzeDocument doc) ! 1) = ok)
   \<and> (headingTags doc = [] \<longrightarrow>
        headingScore doc = 50 \<and> severity (issues (analyzeDocument doc) ! 1) = warning)"
  by (simp add: headingJumps_jumpsIn headingScore_def headingIssue_def issues_analyzeDocument
        flip: jumpsIn_zero)

text \<open>
  The claim as first stated also covers the document without any heading, where no
  heading exceeds another: its sub-score is 50, not 100.
\<close>

theorem heading_check_counterexample:
  "risesByAtMostOne (map levelOf (headingTags emptyDocument))
   \<and> headingScore emptyDocument = 50"
  by (simp add: headingScore_def headingTags_def emptyDocument_def dom_defs example_defs)

lemma outline_levels: "map levelOf (headingTags outlineDocument) = [1, 2, 2, 3, 1]"
  by (simp add: headingTags_def outlineDocument_def dom_defs example_defs levelOf_def)

text \<open>The document with the headings h1, h2, h2, h3, h1, and the one without headings.\<close>

theorem heading_check_witness:
  "map levelOf (headingTags outlineDocument) = [1, 2, 2, 3, 1]
   \<and> headingJumps outlineDocument = 0
   \<and> headingScore outlineDocument = 100
   \<and> severity (issues (analyzeDocument outlineDocument) ! 1) = ok
   \<and> headingTags emptyDocument = []
   \<and> headingScore emptyDocument = 50"
proof -
  have ne: "headingTags outlineDocument \<noteq> []" using outline_levels by auto
  have e: "headingTags emptyDocument = []"
    by (simp add: headingTags_def emptyDocument_def dom_defs example_defs)
  show ?thesis
    using heading_check [of outlineDocument] heading_check [of emptyDocument] ne e
    by (simp add: outline_levels)
qed

section \<open>\<open>getEffectiveBackground\<close>\<close>

text \<open>
  What the loop computes: the computed background colour of the first element, among the
  element itself and its ancestors below the root, whose background colour is set and is
  not the string \<open>rgba(0, 0, 0, 0)\<close>, and \<open>rgb(255, 255, 255)\<close> when there is none. When the
  background of the element itself is \<open>rgba(0, 0, 0, 0)\<close>, the case in which
  \<open>analyzeDocument\<close> calls the function, the search is among the proper ancestors.
\<close>

lemma effective_background_walk:
  "getEffectiveBackground (el, anc) =
     (case find hasBackground (butlast (el # anc)) of
        None \<Rightarrow> ''rgb(255, 255, 255)''
      | Some e \<Rightarrow> backgroundColor (computed e))
   \<and> (backgroundColor (computed el) = ''rgba(0, 0, 0, 0)'' \<longrightarrow>
        getEffectiveBackground (el, anc) =
          (case find hasBackground (butlast anc) of
             None \<Rightarrow> ''rgb(255, 255, 255)''
           | Some e \<Rightarrow> backgroundColor (computed e)))"
proof (induction anc arbitrary: el)
  case Nil
  show ?case by simp
next
  case (Cons parent anc)
  show ?case
    using Cons.IH [of parent] by (simp add: hasBackground_def)
qed

text \<open>
  Claim C5. \<open>getEffectiveBackground\<close> walks the ancestors of the element, stopping at the
  root, and returns the background colour of the first ancestor whose background is not
  fully transparent, and opaque white when it finds none. The function does not keep to
  this, nor to its own comment (\<open>Try to get a non-transparent background going up the DOM
  tree\<close>): its test compares the background with the one string \<open>rgba(0, 0, 0, 0)\<close>, and a
  background with alpha 0 that is written otherwise passes it. For the paragraph in the
  body whose background is \<open>rgba(255, 0, 0, 0)\<close> the function returns that fully
  transparent colour where the claim has white; with that background on a division
  inside a grey body it returns it where the claim has the grey of the body.
\<close>

theorem effective_background_returns_transparent:
  "fullyTransparent ''rgba(255, 0, 0, 0)''
   \<and> getEffectiveBackground (plainParagraph, [clearRedBody, clearRedRoot])
       = ''rgba(255, 0, 0, 0)''
   \<and> getEffectiveBackground (plainParagraph, [clearRedDiv, greyBody, greyBodyRoot])
       = ''rgba(255, 0, 0, 0)''
   \<and> backgroundColor (computed greyBody) = ''rgb(238, 238, 238)''
   \<and> \<not> fullyTransparent ''rgb(238, 238, 238)''"
  by (simp add: plainParagraph_def clearRedBody_def clearRedRoot_def clearRedDiv_def
        clearRedStyle_def greyBody_def greyBodyRoot_def greyStyle_def example_defs
        fullyTransparent_def alphaText_def string_defs)

section \<open>Scenario A\<close>







section \<open>The responsiveness check\<close>

text \<open>
  Claim C9. The responsiveness check gives the sub-score 65 and an issue of severity
  \<open>warning\<close> exactly when the root element's \<open>scrollWidth\<close> exceeds its \<open>clientWidth\<close> by
  more than 5 pixels, and the sub-score 100 and an issue of severity \<open>ok\<close> otherwise. The
  issue is the fifth of the result.
\<close>

theorem responsive_check:
  "(responsiveScore doc = 65 \<and> severity (issues (analyzeDocument doc) ! 4) = warning
      \<longleftrightarrow> scrollWidth doc - clientWidth doc > 5)
   \<and> (responsiveScore doc = 100 \<and> severity (issues (analyzeDocument doc) ! 4) = ok
      \<longleftrightarrow> \<not> scrollWidth doc - clientWidth doc > 5)"
  by (auto simp add: issues_analyzeDocument responsiveScore_def responsiveIssue_def
        hasHorizontalScroll_def)

text \<open>The document that overflows by 20 pixels.\<close>

theorem responsive_check_witness:
  "scrollWidth overflowDocument - clientWidth overflowDocument = 20
   \<and> responsiveScore overflowDocument = 65
   \<and> severity (issues (analyzeDocument overflowDocument) ! 4) = warning"
  using responsive_check [of overflowDocument] by (simp add: overflowDocument_def)

end
